theory Spec2Isabelle
  imports Main "HOL-Library.Char_ord" "HOL-Library.List_Lexorder" "HOL-Library.Sublist"
begin

section \<open>Python values\<close>

text \<open>
  A Python \<open>str\<close> is a \<open>string\<close> holding its UTF-8 bytes; comparing two of them
  lexicographically by byte is comparing them by code point, which is what Python's
  \<open>sorted\<close> does. An \<open>Optional[str]\<close> is a \<open>string option\<close>. The exceptions the
  program can meet are values of \<open>exn\<close>, and a call that may raise returns \<open>exn + 'a\<close>.
\<close>

datatype exn =
  AttributeError | TypeError | ValueError | IndexError | ZeroDivisionError
  | EOFError | ApiException | OSError

text \<open>\<open>try: body except Exception: handler\<close>: every member of \<open>exn\<close> is an \<open>Exception\<close>.\<close>

definition try_except :: "exn + 'a \<Rightarrow> (exn \<Rightarrow> exn + 'a) \<Rightarrow> exn + 'a" where
  "try_except body handler = (case body of Inl e \<Rightarrow> handler e | Inr v \<Rightarrow> Inr v)"

text \<open>Truth value of an \<open>Optional[str]\<close>: \<open>None\<close> and the empty string are false.\<close>

definition truthy :: "string option \<Rightarrow> bool" where
  "truthy v = (case v of None \<Rightarrow> False | Some s \<Rightarrow> s \<noteq> [])"

text \<open>\<open>a or b\<close> on two optional strings.\<close>

definition py_or :: "string option \<Rightarrow> string option \<Rightarrow> string option" where
  "py_or a b = (if truthy a then a else b)"

text \<open>\<open>a or "literal"\<close>, whose value is always a string.\<close>

definition or_str :: "string option \<Rightarrow> string \<Rightarrow> string" where
  "or_str a d = (case a of None \<Rightarrow> d | Some s \<Rightarrow> if s \<noteq> [] then s else d)"

text \<open>\<open>xs or []\<close> on an optional list.\<close>

definition or_nil :: "'a list option \<Rightarrow> 'a list" where
  "or_nil xs = (case xs of None \<Rightarrow> [] | Some l \<Rightarrow> l)"

text \<open>\<open>sep.join(xs)\<close>.\<close>

fun join :: "string \<Rightarrow> string list \<Rightarrow> string" where
  "join sep [] = []"
| "join sep [x] = x"
| "join sep (x # y # ys) = x @ sep @ join sep (y # ys)"

text \<open>How an f-string prints an \<open>Optional[str]\<close>.\<close>

definition fmt_opt :: "string option \<Rightarrow> string" where
  "fmt_opt v = (case v of None \<Rightarrow> ''None'' | Some s \<Rightarrow> s)"

section \<open>Cluster objects\<close>

text \<open>
  The fields of the Kubernetes client objects that \<open>agent.py\<close> reads. A field the
  client declares optional and the program guards (\<open>or []\<close>, \<open>getattr(..., None)\<close>) is
  an option here; \<open>metadata\<close>, \<open>status\<close> and \<open>spec\<close> are options too, since reading a
  field of a missing one raises \<open>AttributeError\<close>.
\<close>

record owner_reference =
  ref_kind :: string
  ref_name :: string
  ref_controller :: "bool option"

record object_meta =
  meta_name :: string
  meta_namespace :: string
  owner_references :: "owner_reference list option"

record pod_condition =
  cond_type :: string
  cond_status :: "string option"
  cond_reason :: "string option"
  cond_message :: "string option"

record state_detail =
  detail_reason :: "string option"

record container_state =
  waiting :: "state_detail option"
  terminated :: "state_detail option"

record container_status =
  cs_state :: "container_state option"

record pod_status =
  conditions :: "pod_condition list option"
  container_statuses :: "container_status list option"
  phase :: "string option"

record container =
  container_name :: "string option"

record pod_spec =
  init_containers :: "container list option"
  containers :: "container list option"

record pod =
  metadata :: "object_meta option"
  status :: "pod_status option"
  spec :: "pod_spec option"

record replica_set =
  rs_metadata :: "object_meta option"

text \<open>
  The cluster API as the program calls it: each call returns its object or raises.
  \<open>read_namespaced_replica_set\<close>, \<open>read_namespaced_job\<close> and \<open>read_namespaced_pod\<close>
  take the name, then the namespace.
\<close>

record cluster =
  list_namespaced_pod :: "string \<Rightarrow> exn + pod list"
  list_pod_for_all_namespaces :: "exn + pod list"
  read_namespaced_replica_set :: "string \<Rightarrow> string \<Rightarrow> exn + replica_set"
  read_namespaced_job :: "string \<Rightarrow> string \<Rightarrow> exn + unit"
  read_namespaced_pod :: "string \<Rightarrow> string \<Rightarrow> exn + pod"

section \<open>Controller resolution\<close>

text \<open>
  \<open>resolve_controller_for_pod\<close>, lines 86 to 141. The first loop keeps the first owner
  reference whose \<open>controller\<close> flag is true; with none flagged, the first reference.
\<close>

definition select_controller_ref :: "owner_reference list \<Rightarrow> owner_reference option" where
  "select_controller_ref owner_refs =
     (case find (\<lambda>ref. ref_controller ref = Some True) owner_refs of
        Some ref \<Rightarrow> Some ref
      | None \<Rightarrow> (case owner_refs of [] \<Rightarrow> None | ref # _ \<Rightarrow> Some ref))"

text \<open>The body of the inner \<open>try\<close> of the ReplicaSet branch (lines 119 to 124).\<close>

definition replica_set_owner ::
  "cluster \<Rightarrow> string \<Rightarrow> string \<Rightarrow> exn + (string option \<times> string option)" where
  "replica_set_owner api name namespace =
     (case read_namespaced_replica_set api name namespace of
        Inl e \<Rightarrow> Inl e
      | Inr rs \<Rightarrow>
          (case rs_metadata rs of
             None \<Rightarrow> Inl AttributeError
           | Some rs_meta \<Rightarrow>
               (case find (\<lambda>ref. ref_controller ref = Some True \<and> ref_kind ref = ''Deployment'')
                       (or_nil (owner_references rs_meta)) of
                  Some ref \<Rightarrow> Inr (Some ''Deployment'', Some (ref_name ref))
                | None \<Rightarrow> Inr (Some ''ReplicaSet'', Some name))))"

text \<open>The body of the inner \<open>try\<close> of the Job branch (lines 133 to 135).\<close>

definition job_owner ::
  "cluster \<Rightarrow> string \<Rightarrow> string \<Rightarrow> exn + (string option \<times> string option)" where
  "job_owner api name namespace =
     (case read_namespaced_job api name namespace of
        Inl e \<Rightarrow> Inl e
      | Inr _ \<Rightarrow> Inr (Some ''Job'', Some name))"

text \<open>The body of the outer \<open>try\<close> (lines 99 to 139).\<close>

definition resolve_body :: "cluster \<Rightarrow> pod \<Rightarrow> exn + (string option \<times> string option)" where
  "resolve_body api p =
     (case metadata p of
        None \<Rightarrow> Inl AttributeError
      | Some m \<Rightarrow>
          (case select_controller_ref (or_nil (owner_references m)) of
             None \<Rightarrow> Inr (None, None)
           | Some controller_ref \<Rightarrow>
               (let kind = ref_kind controller_ref;
                    name = ref_name controller_ref;
                    namespace = meta_namespace m
                in if kind = ''ReplicaSet'' then
                     try_except (replica_set_owner api name namespace)
                       (\<lambda>_. Inr (Some ''ReplicaSet'', Some name))
                   else if kind = ''StatefulSet'' \<or> kind = ''DaemonSet'' then
                     Inr (Some kind, Some name)
                   else if kind = ''Job'' then
                     try_except (job_owner api name namespace) (\<lambda>_. Inr (Some ''Job'', Some name))
                   else Inr (Some kind, Some name))))"

definition resolve_controller_for_pod ::
  "cluster \<Rightarrow> pod \<Rightarrow> exn + (string option \<times> string option)" where
  "resolve_controller_for_pod api p = try_except (resolve_body api p) (\<lambda>_. Inr (None, None))"

section \<open>Failure scan\<close>

text \<open>
  \<open>get_failing_pods\<close>, lines 144 to 215. The first \<open>Ready\<close> condition of the list is the
  one the loop keeps (\<open>break\<close>).
\<close>

definition ready_condition_of :: "pod_status \<Rightarrow> pod_condition option" where
  "ready_condition_of st = find (\<lambda>condition. cond_type condition = ''Ready'') (or_nil (conditions st))"

definition is_ready :: "pod_status \<Rightarrow> bool" where
  "is_ready st =
     (case ready_condition_of st of
        None \<Rightarrow> False
      | Some ready_condition \<Rightarrow> cond_status ready_condition = Some ''True'')"

text \<open>What one container status appends to \<open>container_reasons\<close> (lines 185 to 193).\<close>

definition reasons_of_status :: "container_status \<Rightarrow> string list" where
  "reasons_of_status cs =
     (case cs_state cs of
        None \<Rightarrow> []
      | Some s \<Rightarrow>
          (case waiting s of
             None \<Rightarrow> []
           | Some w \<Rightarrow> if truthy (detail_reason w) then [the (detail_reason w)] else [])
          @ (case terminated s of
               None \<Rightarrow> []
             | Some t \<Rightarrow> if truthy (detail_reason t) then [the (detail_reason t)] else []))"

definition container_reasons :: "pod_status \<Rightarrow> string list" where
  "container_reasons st = concat (map reasons_of_status (or_nil (container_statuses st)))"

text \<open>
  The three assignments to \<open>reason\<close> of lines 175 to 198, in order; each later one runs
  only when \<open>reason\<close> is still false.
\<close>

definition derive_reason :: "pod_status \<Rightarrow> string" where
  "derive_reason st =
     (let reason1 =
            (case ready_condition_of st of
               None \<Rightarrow> None
             | Some ready_condition \<Rightarrow>
                 py_or (cond_reason ready_condition) (cond_message ready_condition));
          reason2 =
            (if \<not> truthy reason1 then
               (if container_reasons st \<noteq> []
                then Some (join '', '' (sort (remdups (container_reasons st))))
                else reason1)
             else reason1)
      in if \<not> truthy reason2 then or_str (phase st) ''NotReady'' else the reason2)"

text \<open>One round of the loop over \<open>pods.items\<close>: the tuple appended, if any.\<close>

type_synonym failing_pod = "string \<times> string \<times> string \<times> string option \<times> string option"

definition scan_pod :: "cluster \<Rightarrow> pod \<Rightarrow> exn + failing_pod option" where
  "scan_pod api p =
     (case status p of
        None \<Rightarrow> Inl AttributeError
      | Some st \<Rightarrow>
          if \<not> is_ready st then
            (let reason = derive_reason st
             in if reason = ''PodCompleted'' then Inr None
                else
                  (case resolve_controller_for_pod api p of
                     Inl e \<Rightarrow> Inl e
                   | Inr (controller_kind, controller_name) \<Rightarrow>
                       (case metadata p of
                          None \<Rightarrow> Inl AttributeError
                        | Some m \<Rightarrow>
                            Inr (Some (meta_namespace m, meta_name m, reason,
                                       controller_kind, controller_name)))))
          else Inr None)"

fun scan_pods :: "cluster \<Rightarrow> pod list \<Rightarrow> failing_pod list \<Rightarrow> exn + failing_pod list" where
  "scan_pods api [] not_ready = Inr not_ready"
| "scan_pods api (p # ps) not_ready =
     (case scan_pod api p of
        Inl e \<Rightarrow> Inl e
      | Inr None \<Rightarrow> scan_pods api ps not_ready
      | Inr (Some t) \<Rightarrow> scan_pods api ps (not_ready @ [t]))"



section \<open>Strings and terminal input\<close>

abbreviation LF :: char where "LF \<equiv> CHR 0x0A"
abbreviation CR :: char where "CR \<equiv> CHR 0x0D"

text \<open>
  The ASCII characters for which \<open>str.isspace\<close> holds, which are also the ASCII
  characters the regular-expression class \<open>\s\<close> matches: 0x09 to 0x0D, 0x1C to 0x20.
\<close>

definition py_isspace :: "char \<Rightarrow> bool" where
  "py_isspace c = ((CHR 0x09 \<le> c \<and> c \<le> CHR 0x0D) \<or> (CHR 0x1C \<le> c \<and> c \<le> CHR 0x20))"

definition py_isdigit :: "char \<Rightarrow> bool" where
  "py_isdigit c = (CHR ''0'' \<le> c \<and> c \<le> CHR ''9'')"

definition strip :: "string \<Rightarrow> string" where
  "strip s = rev (dropWhile py_isspace (rev (dropWhile py_isspace s)))"

text \<open>\<open>str.lower\<close> on ASCII text (the line buffer holds printable ASCII only).\<close>

definition lower_char :: "char \<Rightarrow> char" where
  "lower_char c = (if CHR ''A'' \<le> c \<and> c \<le> CHR ''Z'' then char_of (of_char c + (32::nat)) else c)"

definition lower :: "string \<Rightarrow> string" where
  "lower s = map lower_char s"

text \<open>\<open>str.split()\<close> with no argument: the maximal runs of non-space characters.\<close>

fun split_ws :: "string \<Rightarrow> string \<Rightarrow> string list" where
  "split_ws cur [] = (if cur = [] then [] else [cur])"
| "split_ws cur (c # cs) =
     (if py_isspace c then (if cur = [] then split_ws [] cs else cur # split_ws [] cs)
      else split_ws (cur @ [c]) cs)"

definition split :: "string \<Rightarrow> string list" where
  "split s = split_ws [] s"

text \<open>
  \<open>input()\<close> on the remaining standard input: the text up to the next line feed, which
  is consumed; \<open>EOFError\<close> when nothing is left.
\<close>

definition py_input :: "string \<Rightarrow> exn + (string \<times> string)" where
  "py_input inp =
     (if inp = [] then Inl EOFError
      else Inr (takeWhile (\<lambda>c. c \<noteq> LF) inp, drop 1 (dropWhile (\<lambda>c. c \<noteq> LF) inp)))"

text \<open>
  The \<open>while True\<close> loop of \<open>read_user_input_or_ctrl_n\<close> (lines 275 to 295) over the
  characters still to come on standard input; the result is the returned pair and the
  input left. At end of input \<open>sys.stdin.read(1)\<close> returns the empty string, no branch
  of the loop body takes it, and the loop reads again for ever: the function does not
  return, which is \<open>None\<close>.
\<close>

fun read_loop :: "string \<Rightarrow> string \<Rightarrow> ((string \<times> bool) \<times> string) option" where
  "read_loop buffer [] = None"
| "read_loop buffer (ch # rest) =
     (if ch = CHR 0x0E then Some (([], True), rest)
      else if ch = CR \<or> ch = LF then Some ((strip buffer, False), rest)
      else if ch = CHR 0x7F then
        (if buffer \<noteq> [] then read_loop (butlast buffer) rest else read_loop buffer rest)
      else if CHR 0x20 \<le> ch \<and> ch \<le> CHR 0x7E then read_loop (buffer @ [ch]) rest
      else read_loop buffer rest)"

definition read_user_input_or_ctrl_n :: "string \<Rightarrow> ((string \<times> bool) \<times> string) option" where
  "read_user_input_or_ctrl_n inp = read_loop [] inp"

section \<open>Oracle replies\<close>

datatype action_type =
  DESCRIBE_POD | LOGS | DESCRIBE_DEPLOYMENT | GET_CONFIGMAP | GET_EVENTS | STOP

record action_request =
  req_type :: action_type
  req_namespace :: "string option"
  req_name :: "string option"

record final_analysis =
  root_cause :: string
  remediation :: string

text \<open>
  An object that is neither of the two: what the fall-through branch (lines 485 to 498)
  can ask of it. A method is \<open>None\<close> when the object has no such attribute, and
  otherwise gives its JSON text or raises.
\<close>

record other_object =
  model_dump_json :: "(exn + string) option"
  model_dump :: "(exn + string) option"
  str_of :: string

datatype agent_result =
  ActionRequest action_request | FinalAnalysis final_analysis | Other other_object

record run_output =
  output_obj :: "agent_result option"
  data_obj :: "agent_result option"
  output_text :: "string option"
  as_object :: other_object

fun type_name :: "action_type \<Rightarrow> string" where
  "type_name DESCRIBE_POD = ''DESCRIBE_POD''"
| "type_name LOGS = ''LOGS''"
| "type_name DESCRIBE_DEPLOYMENT = ''DESCRIBE_DEPLOYMENT''"
| "type_name GET_CONFIGMAP = ''GET_CONFIGMAP''"
| "type_name GET_EVENTS = ''GET_EVENTS''"
| "type_name STOP = ''STOP''"

section \<open>Command execution\<close>

text \<open>
  What \<open>subprocess.check_output(cmd, text=True)\<close> does with an argument list of
  strings: the command exits with status zero and its output is returned, or it exits
  with another status and \<open>CalledProcessError\<close> carries its output, or another
  exception is raised (the program cannot be started, its output cannot be decoded).
\<close>

datatype proc_outcome = Succeeded string | CalledProcessError string | NotRun exn

text \<open>
  The collaborators outside the cluster API: the process runner, the oracle
  (\<open>agent.run\<close>) and Python's \<open>int\<close> on a string (\<open>None\<close> for \<open>ValueError\<close>).
\<close>

record host =
  k8s :: cluster
  check_output :: "string list \<Rightarrow> proc_outcome"
  agent_run :: "string \<Rightarrow> exn + run_output"
  py_int :: "string \<Rightarrow> int option"

text \<open>
  The effects a session has: the standard input still unread, every argument list
  \<open>run_cmd\<close> was called with, and every prompt passed to the oracle, oldest first.
\<close>

record world =
  stdin :: string
  commands :: "string option list list"
  prompts :: "string list"

text \<open>The prefix of the error text, whose first character is U+274C.\<close>

definition error_prefix :: string where
  "error_prefix = [CHR 0xE2, CHR 0x9D, CHR 0x8C] @ '' Error executing ''"

text \<open>
  \<open>run_cmd\<close>, lines 71 to 83. The callers build \<open>cmd\<close> from optional fields, so an
  element may be \<open>None\<close>; \<open>check_output\<close> raises \<open>TypeError\<close> on such a list before it
  starts anything. Only \<open>CalledProcessError\<close> is caught.
\<close>

definition run_cmd :: "host \<Rightarrow> string option list \<Rightarrow> world \<Rightarrow> (exn + string) \<times> world" where
  "run_cmd h cmd w =
     (let w' = w\<lparr>commands := commands w @ [cmd]\<rparr>
      in case those cmd of
           None \<Rightarrow> (Inl TypeError, w')
         | Some argv \<Rightarrow>
             (case check_output h argv of
                Succeeded out \<Rightarrow> (Inr out, w')
              | CalledProcessError out \<Rightarrow>
                  (Inr (error_prefix @ join '' '' argv @ '':'' @ [LF] @ out), w')
              | NotRun e \<Rightarrow> (Inl e, w')))"

section \<open>Action dispatch\<close>

text \<open>\<open>list(dict.fromkeys(names))\<close>: a key keeps the place of its first occurrence.\<close>

fun fromkeys :: "'a list \<Rightarrow> 'a list \<Rightarrow> 'a list" where
  "fromkeys keys [] = keys"
| "fromkeys keys (x # xs) = fromkeys (if x \<in> set keys then keys else keys @ [x]) xs"

text \<open>The list comprehension of lines 388 to 392, guarded by the \<open>getattr\<close> before it.\<close>

definition names_of :: "container list option \<Rightarrow> string list" where
  "names_of cs = map (\<lambda>c. the (container_name c)) (filter (\<lambda>c. truthy (container_name c)) (or_nil cs))"

definition container_names :: "pod \<Rightarrow> string list" where
  "container_names pod_obj =
     (case spec pod_obj of
        None \<Rightarrow> []
      | Some sp \<Rightarrow> names_of (init_containers sp) @ names_of (containers sp))"

text \<open>
  The selection loop of lines 408 to 417 on the remaining standard input: a line that
  is not a number, or a number out of range, asks again; \<open>EOFError\<close> leaves the loop.
\<close>

function select_container :: "host \<Rightarrow> string list \<Rightarrow> string \<Rightarrow> (exn + string) \<times> string" where
  "select_container h unique_names inp =
     (case py_input inp of
        Inl e \<Rightarrow> (Inl e, inp)
      | Inr (line, rest) \<Rightarrow>
          (case py_int h line of
             None \<Rightarrow> select_container h unique_names rest
           | Some n \<Rightarrow>
               (let choice = n - 1
                in if 0 \<le> choice \<and> choice < int (length unique_names)
                   then (Inr (unique_names ! nat choice), rest)
                   else select_container h unique_names rest)))"
  by pat_completeness auto
termination
proof -
  have shorter: "length (dropWhile P inp) - Suc 0 < length inp" if "inp \<noteq> []"
    for P and inp :: string
  proof -
    from that have "0 < length inp" by simp
    moreover have "length (dropWhile P inp) \<le> length inp" by (rule length_dropWhile_le)
    ultimately show ?thesis by arith
  qed
  show ?thesis
    by (relation "measure (\<lambda>(h, unique_names, inp). length inp)")
      (auto simp: py_input_def shorter split: if_splits)
qed

declare select_container.simps [simp del]

text \<open>The \<open>try\<close> block of lines 379 to 419: the value left in \<open>selected_container\<close>.\<close>

definition enumerate_containers ::
  "host \<Rightarrow> string \<Rightarrow> string \<Rightarrow> string \<Rightarrow> (exn + string option) \<times> string" where
  "enumerate_containers h target_pod target_namespace inp =
     (case read_namespaced_pod (k8s h) target_pod target_namespace of
        Inl e \<Rightarrow> (Inl e, inp)
      | Inr pod_obj \<Rightarrow>
          (let unique_names = fromkeys [] (container_names pod_obj)
           in if length unique_names > 1 then
                (case select_container h unique_names inp of
                   (Inl e, inp') \<Rightarrow> (Inl e, inp')
                 | (Inr c, inp') \<Rightarrow> (Inr (Some c), inp'))
              else if length unique_names = 1 then (Inr (Some (unique_names ! 0)), inp)
              else (Inr None, inp)))"

section \<open>The session\<close>

text \<open>
  The variables of \<open>chat_loop\<close> that change from one round to the next; \<open>all_pods\<close>
  never changes and is a parameter.
\<close>

record session =
  ns :: string
  pod :: string
  reason :: string
  context_str :: string
  current_idx :: nat

text \<open>Lines 257, 314 and 329: the text a context starts from.\<close>

definition initial_context :: "string \<Rightarrow> string \<Rightarrow> string \<Rightarrow> string" where
  "initial_context pod_name namespace why =
     ''Pod '' @ pod_name @ '' in namespace '' @ namespace @ '' is failing: '' @ why"

text \<open>Lines 300 to 307: the index of the first tuple that carries the selected pod, else 0.\<close>

fun first_index :: "('a \<Rightarrow> bool) \<Rightarrow> 'a list \<Rightarrow> nat option" where
  "first_index P [] = None"
| "first_index P (x # xs) = (if P x then Some 0 else map_option Suc (first_index P xs))"

definition start_session :: "string \<Rightarrow> string \<Rightarrow> string \<Rightarrow> failing_pod list \<Rightarrow> session" where
  "start_session namespace pod_name why all_pods =
     \<lparr>ns = namespace, pod = pod_name, reason = why,
      context_str = initial_context pod_name namespace why,
      current_idx =
        (case first_index (\<lambda>(n, p, r, _). n = namespace \<and> p = pod_name \<and> r = why) all_pods of
           None \<Rightarrow> 0
         | Some i \<Rightarrow> i)\<rparr>"

text \<open>Lines 313 and 314 (and 328 and 329): select the tuple at \<open>idx\<close>, start its context.\<close>

definition switch_to :: "failing_pod list \<Rightarrow> nat \<Rightarrow> session \<Rightarrow> session" where
  "switch_to all_pods idx s =
     (case all_pods ! idx of
        (namespace, pod_name, why, _) \<Rightarrow>
          s\<lparr>current_idx := idx, ns := namespace, pod := pod_name, reason := why,
            context_str := initial_context pod_name namespace why\<rparr>)"

text \<open>
  Lines 324 to 337, the text command \<open>switch <number>\<close>: every path continues the
  loop, and only a number in range changes the session.
\<close>

definition switch_index :: "host \<Rightarrow> string \<Rightarrow> exn + int" where
  "switch_index h user_input =
     (case split user_input of
        _ # tok # _ \<Rightarrow> (case py_int h tok of None \<Rightarrow> Inl ValueError | Some n \<Rightarrow> Inr (n - 1))
      | _ \<Rightarrow> Inl IndexError)"

definition legacy_switch :: "host \<Rightarrow> failing_pod list \<Rightarrow> string \<Rightarrow> session \<Rightarrow> session" where
  "legacy_switch h all_pods user_input s =
     (case switch_index h user_input of
        Inl _ \<Rightarrow> s
      | Inr idx \<Rightarrow>
          if 0 \<le> idx \<and> idx < int (length all_pods) then switch_to all_pods (nat idx) s else s)"

subsection \<open>Dispatch of an action request\<close>

definition logs_cmd :: "string \<Rightarrow> string \<Rightarrow> string option \<Rightarrow> string option list" where
  "logs_cmd target_pod target_namespace selected_container =
     [Some ''kubectl'', Some ''logs'', Some target_pod, Some ''-n'', Some target_namespace,
      Some ''--tail=100'']
     @ (if truthy selected_container then [Some ''-c'', selected_container] else [])"

text \<open>The text of the last branch, which starts with U+26A0 U+FE0F.\<close>

definition unknown_action :: "action_type \<Rightarrow> string" where
  "unknown_action t =
     [CHR 0xE2, CHR 0x9A, CHR 0xA0, CHR 0xEF, CHR 0xB8, CHR 0x8F] @ '' Unknown action: ''
     @ type_name t"

text \<open>
  Lines 363 to 462, the \<open>if\<close> chain on \<open>result.type\<close> that sets \<open>output\<close>. \<open>STOP\<close> has
  returned before the chain; the chain itself would send it to the last branch.
\<close>

definition dispatch :: "host \<Rightarrow> action_request \<Rightarrow> session \<Rightarrow> world \<Rightarrow> (exn + string) \<times> world" where
  "dispatch h result s w =
     (case req_type result of
        DESCRIBE_POD \<Rightarrow>
          run_cmd h [Some ''kubectl'', Some ''describe'', Some ''pod'', req_name result,
                     Some ''-n'', req_namespace result] w
      | LOGS \<Rightarrow>
          (let target_namespace = or_str (req_namespace result) (ns s);
               target_pod = or_str (req_name result) (pod s);
               found = enumerate_containers h target_pod target_namespace (stdin w);
               selected_container = (case fst found of Inl _ \<Rightarrow> None | Inr c \<Rightarrow> c)
           in run_cmd h (logs_cmd target_pod target_namespace selected_container)
                (w\<lparr>stdin := snd found\<rparr>))
      | DESCRIBE_DEPLOYMENT \<Rightarrow>
          run_cmd h [Some ''kubectl'', Some ''describe'', Some ''deployment'', req_name result,
                     Some ''-n'', req_namespace result] w
      | GET_CONFIGMAP \<Rightarrow>
          run_cmd h [Some ''kubectl'', Some ''get'', Some ''configmap'', req_name result,
                     Some ''-n'', req_namespace result, Some ''-o'', Some ''yaml''] w
      | GET_EVENTS \<Rightarrow>
          run_cmd h [Some ''kubectl'', Some ''get'', Some ''events'', Some ''-n'',
                     req_namespace result] w
      | STOP \<Rightarrow> (Inr (unknown_action STOP), w))"

text \<open>Line 466: the block an action appends to the context.\<close>

definition result_block :: "action_request \<Rightarrow> string \<Rightarrow> string" where
  "result_block result out =
     [LF, LF] @ ''# Result of '' @ type_name (req_type result) @ '' (''
     @ fmt_opt (req_namespace result) @ ''/'' @ fmt_opt (req_name result) @ '')'' @ [LF]
     @ out @ [LF]"

subsection \<open>Bullet formatting\<close>

text \<open>
  \<open>_format_bullets\<close>, lines 472 to 479. Each pattern is a function from the text at a
  position to the length of its match there, 0 for no match. The texts are ASCII text
  and the bullet U+2022 (the three bytes E2 80 A2): of the characters that \<open>\s\<close> and
  \<open>\d\<close> match, the ASCII ones are modelled.
\<close>

definition bullet_match :: "string \<Rightarrow> nat" where
  "bullet_match s =
     (let g = (if prefix ''-'' s \<or> prefix ''*'' s then 1
               else if prefix [CHR 0xE2, CHR 0x80, CHR 0xA2] s then 3 else 0);
          ws = length (takeWhile py_isspace (drop g s))
      in if g = 0 \<or> ws = 0 then 0 else g + ws)"

definition numbered_match :: "string \<Rightarrow> nat" where
  "numbered_match s =
     (let d = length (takeWhile py_isdigit s)
      in if d = 0 then 0
         else (case drop d s of
                 [] \<Rightarrow> 0
               | c # rest \<Rightarrow>
                   if c = CHR ''.'' then
                     (let ws = length (takeWhile py_isspace rest)
                      in if ws = 0 then 0 else d + 1 + ws)
                   else 0))"

text \<open>
  \<open>re.sub(r"(?<!^)(?<!\n)(pattern)", r"\n\1", text)\<close>: the scan goes left to right;
  \<open>prev\<close> is the character before the position (\<open>None\<close> at the start of the text,
  where \<open>^\<close> matches); a match is kept with a line feed before it and the scan goes on
  behind it.
\<close>

function re_sub_break :: "(string \<Rightarrow> nat) \<Rightarrow> char option \<Rightarrow> string \<Rightarrow> string" where
  "re_sub_break m prev [] = []"
| "re_sub_break m prev (c # cs) =
     (if prev \<noteq> None \<and> prev \<noteq> Some LF \<and> 0 < m (c # cs)
      then LF # take (m (c # cs)) (c # cs)
             @ re_sub_break m (Some (last (take (m (c # cs)) (c # cs)))) (drop (m (c # cs)) (c # cs))
      else c # re_sub_break m (Some c) cs)"
  by pat_completeness auto
termination
  by (relation "measure (\<lambda>(m, prev, s). length s)") auto

definition format_bullets :: "string \<Rightarrow> string" where
  "format_bullets text = re_sub_break numbered_match None (re_sub_break bullet_match None text)"

text \<open>Line 483: the block a final analysis appends to the context.\<close>

definition analysis_block :: "final_analysis \<Rightarrow> string" where
  "analysis_block result =
     [LF, LF] @ ''# Final Analysis'' @ [LF] @ ''Root Cause: '' @ root_cause result @ [LF]
     @ ''Remediation:'' @ [LF] @ format_bullets (remediation result) @ [LF]"

subsection \<open>Any other reply\<close>

text \<open>Lines 485 to 498: the text of a reply that is neither variant.\<close>

definition passthrough_text :: "run_output \<Rightarrow> other_object \<Rightarrow> string" where
  "passthrough_text ro ob =
     (let text0 = output_text ro;
          text1 =
            (if \<not> truthy text0 then
               (case model_dump_json ob of
                  Some (Inr t) \<Rightarrow> Some t
                | Some (Inl _) \<Rightarrow> text0
                | None \<Rightarrow>
                    (case model_dump ob of
                       Some (Inr t) \<Rightarrow> Some t
                     | Some (Inl _) \<Rightarrow> text0
                     | None \<Rightarrow> text0))
             else text0)
      in if \<not> truthy text1 then str_of ob else the text1)"

definition response_block :: "string \<Rightarrow> string" where
  "response_block t = [LF, LF] @ ''# Model Response'' @ [LF] @ t @ [LF]"

subsection \<open>One round of the loop\<close>

text \<open>How a round ends: \<open>continue\<close> (or the end of the body), \<open>break\<close>, \<open>return\<close>.\<close>

datatype control = Continue | Break | Return

text \<open>Lines 349 to 353: the structured output, else \<open>data\<close>, else the run output itself.\<close>

definition result_of :: "run_output \<Rightarrow> agent_result" where
  "result_of ro =
     (case output_obj ro of
        Some r \<Rightarrow> r
      | None \<Rightarrow> (case data_obj ro of Some r \<Rightarrow> r | None \<Rightarrow> Other (as_object ro)))"

text \<open>Lines 355 to 500: what the round does with the oracle's reply.\<close>

definition handle_reply ::
  "host \<Rightarrow> run_output \<Rightarrow> session \<Rightarrow> world \<Rightarrow> (exn + control \<times> session) \<times> world" where
  "handle_reply h ro s w =
     (case result_of ro of
        ActionRequest result \<Rightarrow>
          if req_type result = STOP then (Inr (Return, s), w)
          else
            (case dispatch h result s w of
               (Inl e, w') \<Rightarrow> (Inl e, w')
             | (Inr out, w') \<Rightarrow>
                 (Inr (Continue, s\<lparr>context_str := context_str s @ result_block result out\<rparr>), w'))
      | FinalAnalysis result \<Rightarrow>
          (Inr (Continue, s\<lparr>context_str := context_str s @ analysis_block result\<rparr>), w)
      | Other ob \<Rightarrow>
          (Inr (Continue,
                s\<lparr>context_str := context_str s @ response_block (passthrough_text ro ob)\<rparr>), w))"

text \<open>Line 340.\<close>

definition user_prompt_of :: "string \<Rightarrow> string \<Rightarrow> string" where
  "user_prompt_of ctx user_input = ctx @ [LF] @ ''User: '' @ user_input"

text \<open>
  The body of \<open>while True\<close> (lines 310 to 500). \<open>None\<close> when the input routine does not
  return; otherwise the exception that leaves \<open>chat_loop\<close>, or how the round ends and
  the session after it.
\<close>

definition chat_round ::
  "host \<Rightarrow> failing_pod list \<Rightarrow> session \<Rightarrow> world \<Rightarrow> ((exn + control \<times> session) \<times> world) option" where
  "chat_round h all_pods s w =
     (case read_user_input_or_ctrl_n (stdin w) of
        None \<Rightarrow> None
      | Some ((typed, ctrl_n), rest) \<Rightarrow>
          Some
            (let w1 = w\<lparr>stdin := rest\<rparr>
             in if ctrl_n then
                  (if all_pods = [] then (Inl ZeroDivisionError, w1)
                   else (Inr (Continue,
                              switch_to all_pods ((current_idx s + 1) mod length all_pods) s), w1))
                else
                  (let user_input = strip typed
                   in if lower user_input = ''exit'' \<or> lower user_input = ''quit''
                      then (Inr (Break, s), w1)
                      else if prefix ''switch'' user_input
                      then (Inr (Continue, legacy_switch h all_pods user_input s), w1)
                      else
                        (let user_prompt = user_prompt_of (context_str s) user_input;
                             w2 = w1\<lparr>prompts := prompts w1 @ [user_prompt]\<rparr>
                         in case agent_run h user_prompt of
                              Inl _ \<Rightarrow> (Inr (Continue, s), w2)
                            | Inr ro \<Rightarrow> handle_reply h ro s w2))))"

subsection \<open>The loop\<close>

text \<open>
  \<open>while True\<close> (line 309): rounds are run until one ends in \<open>break\<close> or \<open>return\<close>, an
  exception leaves the function, or the input routine does not return (\<open>None\<close>). Every
  round reads at least one character and the standard input is a finite text, so the
  recursion ends.
\<close>

function chat_loop ::
  "host \<Rightarrow> failing_pod list \<Rightarrow> session \<Rightarrow> world \<Rightarrow> ((exn + control) \<times> world) option" where
  "chat_loop h all_pods s w =
     (case chat_round h all_pods s w of
        None \<Rightarrow> None
      | Some (Inl e, w') \<Rightarrow> Some (Inl e, w')
      | Some (Inr (how, s'), w') \<Rightarrow>
          if how = Continue then chat_loop h all_pods s' w' else Some (Inr how, w'))"
  by pat_completeness auto
termination
proof -
  have reader: "length rest < length inp" if "read_loop buffer inp = Some (r, rest)"
    for buffer inp r rest
    using that
  proof (induction inp arbitrary: buffer)
    case Nil
    then show ?case by simp
  next
    case (Cons ch inp)
    have "length rest < length inp" if "read_loop b inp = Some (r, rest)" for b
      using Cons.IH [OF that] .
    with Cons.prems show ?case by (auto split: if_splits dest: less_SucI)
  qed
  have line: "length rest < length inp" if "py_input inp = Inr (l, rest)" for inp l rest
  proof -
    from that have ne: "inp \<noteq> []" and r: "rest = drop 1 (dropWhile (\<lambda>c. c \<noteq> LF) inp)"
      by (auto simp: py_input_def split: if_splits)
    have "length (dropWhile (\<lambda>c. c \<noteq> LF) inp) \<le> length inp" by (rule length_dropWhile_le)
    with ne r show ?thesis by (cases inp) auto
  qed
  have choice: "length (snd (select_container h names inp)) \<le> length inp" for h names inp
  proof (induction h names inp rule: select_container.induct)
    case (1 h unique_names inp)
    show ?case
    proof (cases "py_input inp")
      case (Inl e)
      then show ?thesis by (subst select_container.simps) simp
    next
      case (Inr lr)
      obtain l rest where lr: "lr = (l, rest)" by (cases lr)
      note shorter = line [OF Inr [unfolded lr]]
      show ?thesis
      proof (cases "py_int h l")
        case None
        from "1.IH"(1) [OF Inr [unfolded lr] refl None] shorter Inr lr None
        show ?thesis by (subst select_container.simps) simp
      next
        case (Some n)
        show ?thesis
        proof (cases "0 \<le> n - 1 \<and> n - 1 < int (length unique_names)")
          case True
          with shorter Inr lr Some show ?thesis
            by (subst select_container.simps) (simp add: Let_def)
        next
          case False
          from "1.IH"(2) [OF Inr [unfolded lr] refl Some refl False] shorter Inr lr Some False
          show ?thesis by (subst select_container.simps) (auto simp: Let_def)
        qed
      qed
    qed
  qed
  have chosen: "length rest \<le> length inp" if "select_container h names inp = (r, rest)"
    for h names inp r rest
    using choice [of h names inp] that by simp
  have names: "length (snd (enumerate_containers h tp tn inp)) \<le> length inp" for h tp tn inp
    by (auto simp: enumerate_containers_def Let_def split: sum.splits prod.splits dest: chosen)
  have ran: "stdin (snd (run_cmd h cmd w)) = stdin w" for h cmd w
    by (simp add: run_cmd_def Let_def split: option.splits proc_outcome.splits)
  have action: "length (stdin (snd (dispatch h a s w))) \<le> length (stdin w)" for h a s w
    using names by (cases "req_type a") (simp_all add: dispatch_def ran Let_def)
  have acted: "length (stdin w') \<le> length (stdin w)" if "dispatch h a s w = (r, w')"
    for h a s w r w'
    using action [of h a s w] that by simp
  have reply: "length (stdin (snd (handle_reply h ro s w))) \<le> length (stdin w)" for h ro s w
    by (auto simp: handle_reply_def split: agent_result.splits prod.splits sum.splits
        dest: acted)
  have round: "length (stdin w') < length (stdin w)" if "chat_round h all_pods s w = Some (r, w')"
    for h all_pods s w r w'
  proof -
    from that obtain typed ctrl_n rest
      where rd: "read_loop [] (stdin w) = Some ((typed, ctrl_n), rest)"
      by (auto simp: chat_round_def read_user_input_or_ctrl_n_def split: option.splits)
    note less = reader [OF rd]
    have replied: "length (stdin w') \<le> length rest"
      if "handle_reply h ro s (w\<lparr>stdin := rest, prompts := p\<rparr>) = (r, w')" for ro p
      using reply [of h ro s "w\<lparr>stdin := rest, prompts := p\<rparr>"] that by simp
    have "length (stdin w') \<le> length rest"
      using that rd
      by (auto simp: chat_round_def read_user_input_or_ctrl_n_def Let_def
          split: if_splits sum.splits dest: replied)
    with less show ?thesis by simp
  qed
  show ?thesis
    by (relation "measure (\<lambda>(h, all_pods, s, w). length (stdin w))") (auto dest: round)
qed

declare chat_loop.simps [simp del]

section \<open>The specification's notions\<close>

text \<open>
  The definitions of this section are written from the specification's sentences, not
  from the code; the results below compare the code with them.
\<close>

text \<open>An optional value as the list of what is there.\<close>

definition opt_list :: "'a option \<Rightarrow> 'a list" where
  "opt_list v = (case v of None \<Rightarrow> [] | Some x \<Rightarrow> [x])"


text \<open>
  The selected owner reference: the reference flagged as the managing controller; if
  none is flagged, the first reference of the list; none if the list is empty.
\<close>

definition selected_owner :: "owner_reference list \<Rightarrow> owner_reference option" where
  "selected_owner refs =
     (case filter (\<lambda>r. ref_controller r = Some True) refs of
        flagged # _ \<Rightarrow> Some flagged
      | [] \<Rightarrow> (case refs of [] \<Rightarrow> None | r # _ \<Rightarrow> Some r))"

text \<open>
  The Deployment that manages a ReplicaSet: the name of its owner reference flagged as
  controller with kind \<open>Deployment\<close>, if it has one.
\<close>

definition controlling_deployment :: "replica_set \<Rightarrow> string option" where
  "controlling_deployment rs =
     (case rs_metadata rs of
        None \<Rightarrow> None
      | Some m \<Rightarrow>
          (case filter (\<lambda>r. ref_controller r = Some True \<and> ref_kind r = ''Deployment'')
                  (or_nil (owner_references m)) of
             [] \<Rightarrow> None
           | d # _ \<Rightarrow> Some (ref_name d)))"




text \<open>
  The non-empty reason strings found in any container's waiting or terminated state,
  across all container statuses.
\<close>

definition stated_reasons :: "pod_status \<Rightarrow> string list" where
  "stated_reasons st =
     [r. cs \<leftarrow> or_nil (container_statuses st),
         s \<leftarrow> opt_list (cs_state cs),
         d \<leftarrow> opt_list (waiting s) @ opt_list (terminated s),
         r \<leftarrow> opt_list (detail_reason d),
         r \<noteq> []]"






text \<open>
  The names of a pod's containers: the init-container names followed by the
  regular-container names, those that are there and not empty.
\<close>

definition named :: "container list option \<Rightarrow> string list" where
  "named cs = [n. c \<leftarrow> or_nil cs, n \<leftarrow> opt_list (container_name c), n \<noteq> []]"

definition listed_names :: "pod \<Rightarrow> string list" where
  "listed_names pod_obj =
     (case spec pod_obj of
        None \<Rightarrow> []
      | Some sp \<Rightarrow> named (init_containers sp) @ named (containers sp))"

text \<open>
  The lines of a text, as they are read one after the other: each ends at a line feed,
  the last one at the end of the text.
\<close>

fun split_lines :: "string \<Rightarrow> string \<Rightarrow> string list" where
  "split_lines cur [] = (if cur = [] then [] else [cur])"
| "split_lines cur (c # cs) =
     (if c = LF then cur # split_lines [] cs else split_lines (cur @ [c]) cs)"

definition input_lines :: "string \<Rightarrow> string list" where
  "input_lines inp = split_lines [] inp"

text \<open>The text that is left when \<open>k\<close> lines have been read.\<close>

fun drop_lines :: "nat \<Rightarrow> string \<Rightarrow> string" where
  "drop_lines 0 inp = inp"
| "drop_lines (Suc k) inp = drop_lines k (drop 1 (dropWhile (\<lambda>c. c \<noteq> LF) inp))"

text \<open>A line answers the selection prompt when it is a number from 1 to the number of names.\<close>

definition answers :: "host \<Rightarrow> string list \<Rightarrow> string \<Rightarrow> bool" where
  "answers h names l =
     (case py_int h l of None \<Rightarrow> False | Some n \<Rightarrow> 1 \<le> n \<and> n \<le> int (length names))"

text \<open>
  The explicit single choice: lines are read until one answers the prompt; the name at
  the place it gives is chosen and the input behind that line is left. When no line of
  the input answers, nothing is chosen and the input is used up.
\<close>

definition selection :: "host \<Rightarrow> string list \<Rightarrow> string \<Rightarrow> string option \<times> string" where
  "selection h names inp =
     (let ls = input_lines inp;
          rejected = takeWhile (\<lambda>l. \<not> answers h names l) ls
      in if length rejected < length ls
         then (Some (names ! nat (the (py_int h (ls ! length rejected)) - 1)),
               drop_lines (Suc (length rejected)) inp)
         else (None, []))"

text \<open>The log query on a pod, with the container qualifier when one is chosen.\<close>

definition logs_query :: "string \<Rightarrow> string \<Rightarrow> string option \<Rightarrow> string option list" where
  "logs_query target_pod target_namespace chosen =
     [Some ''kubectl'', Some ''logs'', Some target_pod, Some ''-n'', Some target_namespace,
      Some ''--tail=100'']
     @ (case chosen of None \<Rightarrow> [] | Some c \<Rightarrow> [Some ''-c'', Some c])"

text \<open>
  De-duplication by first occurrence: every element once, in the order of the first
  occurrences.
\<close>

definition first_occurrences :: "'a list \<Rightarrow> 'a list" where
  "first_occurrences xs = rev (remdups (rev xs))"

section \<open>A small cluster\<close>

text \<open>
  Four pods: one ready; \<open>web_pod\<close>, crash-looping, owned by a ReplicaSet that a
  Deployment owns; \<open>job_pod\<close>, completed; \<open>pull_pod\<close>, without conditions, whose
  containers cannot pull their image.
\<close>

definition web_ref :: owner_reference where
  "web_ref = \<lparr>ref_kind = ''ReplicaSet'', ref_name = ''web-5d9'', ref_controller = Some True\<rparr>"

definition web_meta :: object_meta where
  "web_meta = \<lparr>meta_name = ''web-5d9-x1'', meta_namespace = ''prod'',
                owner_references = Some [web_ref]\<rparr>"

definition web_rs :: replica_set where
  "web_rs =
     \<lparr>rs_metadata = Some \<lparr>meta_name = ''web-5d9'', meta_namespace = ''prod'',
        owner_references =
          Some [\<lparr>ref_kind = ''Deployment'', ref_name = ''web'', ref_controller = Some True\<rparr>]\<rparr>\<rparr>"

definition web_pod :: pod where
  "web_pod =
     \<lparr>metadata = Some web_meta,
      status = Some
        \<lparr>conditions = Some
           [\<lparr>cond_type = ''Initialized'', cond_status = Some ''True'', cond_reason = None,
             cond_message = None\<rparr>,
            \<lparr>cond_type = ''Ready'', cond_status = Some ''False'',
             cond_reason = Some ''ContainersNotReady'',
             cond_message = Some ''containers with unready status: [web]''\<rparr>],
         container_statuses = Some
           [\<lparr>cs_state = Some \<lparr>waiting = Some \<lparr>detail_reason = Some ''CrashLoopBackOff''\<rparr>,
                               terminated = None\<rparr>\<rparr>,
            \<lparr>cs_state = Some \<lparr>waiting = None,
                               terminated = Some \<lparr>detail_reason = Some ''PodCompleted''\<rparr>\<rparr>\<rparr>],
         phase = Some ''Running''\<rparr>,
      spec = Some
        \<lparr>init_containers = Some [\<lparr>container_name = Some ''init''\<rparr>],
         containers = Some [\<lparr>container_name = Some ''web''\<rparr>, \<lparr>container_name = Some ''init''\<rparr>,
                            \<lparr>container_name = Some ''proxy''\<rparr>]\<rparr>\<rparr>"

text \<open>
  A second pod of the same ReplicaSet, with two owner references: the first is not
  flagged as controller, the second is.
\<close>

definition mixed_pod :: pod where
  "mixed_pod =
     \<lparr>metadata = Some
        \<lparr>meta_name = ''web-5d9-x2'', meta_namespace = ''prod'',
         owner_references = Some
           [\<lparr>ref_kind = ''Node'', ref_name = ''node-3'', ref_controller = None\<rparr>,
            \<lparr>ref_kind = ''ReplicaSet'', ref_name = ''web-5d9'', ref_controller = Some True\<rparr>]\<rparr>,
      status = None, spec = None\<rparr>"

definition ready_pod :: pod where
  "ready_pod =
     \<lparr>metadata = Some \<lparr>meta_name = ''db-0'', meta_namespace = ''prod'', owner_references = None\<rparr>,
      status = Some
        \<lparr>conditions = Some
           [\<lparr>cond_type = ''Ready'', cond_status = Some ''True'', cond_reason = None,
             cond_message = None\<rparr>],
         container_statuses = None, phase = Some ''Running''\<rparr>,
      spec = None\<rparr>"

definition job_pod :: pod where
  "job_pod =
     \<lparr>metadata = Some \<lparr>meta_name = ''migrate-7'', meta_namespace = ''batch'',
        owner_references =
          Some [\<lparr>ref_kind = ''Job'', ref_name = ''migrate'', ref_controller = Some True\<rparr>]\<rparr>,
      status = Some
        \<lparr>conditions = Some
           [\<lparr>cond_type = ''Ready'', cond_status = Some ''False'',
             cond_reason = Some ''PodCompleted'', cond_message = None\<rparr>],
         container_statuses = None, phase = Some ''Succeeded''\<rparr>,
      spec = None\<rparr>"

definition pull_pod :: pod where
  "pull_pod =
     \<lparr>metadata = Some \<lparr>meta_name = ''cache-1'', meta_namespace = ''dev'',
        owner_references =
          Some [\<lparr>ref_kind = ''ReplicaSet'', ref_name = ''cache-77'', ref_controller = None\<rparr>]\<rparr>,
      status = Some
        \<lparr>conditions = None,
         container_statuses = Some
           [\<lparr>cs_state = Some \<lparr>waiting = Some \<lparr>detail_reason = Some ''ImagePullBackOff''\<rparr>,
                               terminated = None\<rparr>\<rparr>,
            \<lparr>cs_state = Some \<lparr>waiting = Some \<lparr>detail_reason = Some ''ErrImagePull''\<rparr>,
                               terminated = None\<rparr>\<rparr>,
            \<lparr>cs_state = Some \<lparr>waiting = Some \<lparr>detail_reason = Some ''ImagePullBackOff''\<rparr>,
                               terminated = None\<rparr>\<rparr>],
         phase = Some ''Pending''\<rparr>,
      spec = Some \<lparr>init_containers = None,
                   containers = Some [\<lparr>container_name = Some ''cache''\<rparr>]\<rparr>\<rparr>"

definition small_cluster :: cluster where
  "small_cluster =
     \<lparr>list_namespaced_pod = (\<lambda>n. if n = ''prod'' then Inr [ready_pod, web_pod] else Inr []),
      list_pod_for_all_namespaces = Inr [ready_pod, web_pod, job_pod, pull_pod],
      read_namespaced_replica_set =
        (\<lambda>name namespace.
           if name = ''web-5d9'' \<and> namespace = ''prod'' then Inr web_rs else Inl ApiException),
      read_namespaced_job = (\<lambda>name namespace. Inr ()),
      read_namespaced_pod =
        (\<lambda>name namespace.
           if name = ''web-5d9-x1'' \<and> namespace = ''prod'' then Inr web_pod
           else if name = ''cache-1'' \<and> namespace = ''dev'' then Inr pull_pod
           else Inl ApiException)\<rparr>"

text \<open>
  A host on that cluster. Its \<open>kubectl logs\<close> succeeds and every other command exits
  with an error; its oracle asks for logs when the prompt ends in \<open>logs\<close>, asks for a
  pod description without naming the pod when it ends in \<open>describe\<close>, and otherwise
  concludes; its \<open>int\<close> reads unsigned decimal numbers.
\<close>

definition decimal_int :: "string \<Rightarrow> int option" where
  "decimal_int s =
     (if s \<noteq> [] \<and> list_all py_isdigit s
      then Some (foldl (\<lambda>n c. 10 * n + (int (of_char c) - 48)) 0 s)
      else None)"

definition reply :: "agent_result \<Rightarrow> run_output" where
  "reply r =
     \<lparr>output_obj = Some r, data_obj = None, output_text = None,
      as_object = \<lparr>model_dump_json = None, model_dump = None, str_of = ''AgentRunResult''\<rparr>\<rparr>"

definition oom_analysis :: final_analysis where
  "oom_analysis =
     \<lparr>root_cause = ''OOMKilled'',
      remediation = ''- raise memory limit'' @ [LF] @ ''- check for leak''\<rparr>"

definition small_host :: host where
  "small_host =
     \<lparr>k8s = small_cluster,
      check_output =
        (\<lambda>argv. if take 2 argv = [''kubectl'', ''logs'']
                then Succeeded (''panic: missing config'' @ [LF])
                else CalledProcessError (''Error from server (NotFound)'' @ [LF])),
      agent_run =
        (\<lambda>prompt.
           if suffix ''logs'' prompt
           then Inr (reply (ActionRequest \<lparr>req_type = LOGS, req_namespace = None, req_name = None\<rparr>))
           else if suffix ''describe'' prompt
           then Inr (reply (ActionRequest
                  \<lparr>req_type = DESCRIBE_POD, req_namespace = None, req_name = None\<rparr>))
           else Inr (reply (FinalAnalysis oom_analysis))),
      py_int = decimal_int\<rparr>"

text \<open>The same host on a machine without \<open>kubectl\<close>: no command can be started.\<close>

definition bare_host :: host where
  "bare_host = small_host\<lparr>check_output := (\<lambda>argv. NotRun OSError)\<rparr>"

text \<open>The same host with an oracle that cannot be reached.\<close>

definition deaf_host :: host where
  "deaf_host = small_host\<lparr>agent_run := (\<lambda>prompt. Inl ApiException)\<rparr>"

text \<open>The working set the scan of the small cluster gives, and a session on its first pod.\<close>

definition small_pods :: "failing_pod list" where
  "small_pods =
     [(''prod'', ''web-5d9-x1'', ''ContainersNotReady'', Some ''Deployment'', Some ''web''),
      (''dev'', ''cache-1'', ''ErrImagePull, ImagePullBackOff'', Some ''ReplicaSet'',
       Some ''cache-77'')]"

definition web_session :: session where
  "web_session = start_session ''prod'' ''web-5d9-x1'' ''ContainersNotReady'' small_pods"

definition typing :: "string \<Rightarrow> world" where
  "typing keys = \<lparr>stdin = keys, commands = [], prompts = []\<rparr>"

definition logs_request :: action_request where
  "logs_request = \<lparr>req_type = LOGS, req_namespace = None, req_name = None\<rparr>"

definition describe_request :: action_request where
  "describe_request = \<lparr>req_type = DESCRIBE_POD, req_namespace = None, req_name = None\<rparr>"

section \<open>Controller resolution: results\<close>

lemma find_filter: "find P xs = (case filter P xs of [] \<Rightarrow> None | x # _ \<Rightarrow> Some x)"
  by (induction xs) auto

text \<open>The first loop of the code selects the owner reference the specification names.\<close>

lemma select_controller_ref_selected: "select_controller_ref refs = selected_owner refs"
  by (simp add: select_controller_ref_def selected_owner_def find_filter split: list.splits)

lemma replica_set_owner_cases:
  "try_except (replica_set_owner api name namespace) (\<lambda>_. Inr (Some ''ReplicaSet'', Some name)) =
     Inr (case read_namespaced_replica_set api name namespace of
            Inl _ \<Rightarrow> (Some ''ReplicaSet'', Some name)
          | Inr rs \<Rightarrow>
              (case controlling_deployment rs of
                 Some d \<Rightarrow> (Some ''Deployment'', Some d)
               | None \<Rightarrow> (Some ''ReplicaSet'', Some name)))"
  by (simp add: try_except_def replica_set_owner_def controlling_deployment_def find_filter
      split: sum.splits option.splits list.splits)

lemma resolve_total: "\<exists>r. resolve_controller_for_pod api p = Inr r"
  by (simp add: resolve_controller_for_pod_def try_except_def split: sum.splits)

text \<open>
  C2. Resolution always returns a pair and never raises. With no metadata to read (the
  one exception outside the lookups) and with an empty owner list the pair is
  (none, none). The selected owner reference is the controller-flagged reference, else
  the first reference. When it has kind \<open>ReplicaSet\<close>, the ReplicaSet is fetched by the
  reference's name in the pod's namespace; the result is (\<open>Deployment\<close>, d) when the
  ReplicaSet has a controller-flagged owner of kind \<open>Deployment\<close> named d, and
  (\<open>ReplicaSet\<close>, the reference's name) otherwise, also when the lookup fails.
\<close>

theorem resolve_replica_set_chain:
  "(\<exists>r. resolve_controller_for_pod api p = Inr r)
   \<and> (metadata p = None \<longrightarrow> resolve_controller_for_pod api p = Inr (None, None))
   \<and> (\<forall>m. metadata p = Some m \<longrightarrow> or_nil (owner_references m) = [] \<longrightarrow>
          resolve_controller_for_pod api p = Inr (None, None))
   \<and> (\<forall>m ref. metadata p = Some m \<longrightarrow>
          selected_owner (or_nil (owner_references m)) = Some ref \<longrightarrow>
          ref_kind ref = ''ReplicaSet'' \<longrightarrow>
          resolve_controller_for_pod api p =
            Inr (case read_namespaced_replica_set api (ref_name ref) (meta_namespace m) of
                   Inl _ \<Rightarrow> (Some ''ReplicaSet'', Some (ref_name ref))
                 | Inr rs \<Rightarrow>
                     (case controlling_deployment rs of
                        Some d \<Rightarrow> (Some ''Deployment'', Some d)
                      | None \<Rightarrow> (Some ''ReplicaSet'', Some (ref_name ref)))))"
proof (intro conjI allI impI)
  show "\<exists>r. resolve_controller_for_pod api p = Inr r" by (rule resolve_total)
next
  assume "metadata p = None"
  then show "resolve_controller_for_pod api p = Inr (None, None)"
    by (simp add: resolve_controller_for_pod_def resolve_body_def try_except_def)
next
  fix m assume "metadata p = Some m" "or_nil (owner_references m) = []"
  then show "resolve_controller_for_pod api p = Inr (None, None)"
    by (simp add: resolve_controller_for_pod_def resolve_body_def try_except_def
        select_controller_ref_def)
next
  fix m ref
  assume m: "metadata p = Some m"
    and sel: "selected_owner (or_nil (owner_references m)) = Some ref"
    and k: "ref_kind ref = ''ReplicaSet''"
  have "resolve_body api p =
      try_except (replica_set_owner api (ref_name ref) (meta_namespace m))
        (\<lambda>_. Inr (Some ''ReplicaSet'', Some (ref_name ref)))"
    using m sel k by (simp add: resolve_body_def Let_def select_controller_ref_selected)
  then show "resolve_controller_for_pod api p =
            Inr (case read_namespaced_replica_set api (ref_name ref) (meta_namespace m) of
                   Inl _ \<Rightarrow> (Some ''ReplicaSet'', Some (ref_name ref))
                 | Inr rs \<Rightarrow>
                     (case controlling_deployment rs of
                        Some d \<Rightarrow> (Some ''Deployment'', Some d)
                      | None \<Rightarrow> (Some ''ReplicaSet'', Some (ref_name ref))))"
    by (simp add: resolve_controller_for_pod_def replica_set_owner_cases)
      (simp add: try_except_def)
qed

text \<open>
  \<open>mixed_pod\<close>: the flagged second reference is selected, not the first, and leads
  to the Deployment. \<open>pull_pod\<close>: no reference is flagged, the first is selected, and
  the lookup of its ReplicaSet fails.
\<close>

theorem resolve_replica_set_chain_witness:
  "resolve_controller_for_pod small_cluster mixed_pod = Inr (Some ''Deployment'', Some ''web'')
   \<and> resolve_controller_for_pod small_cluster pull_pod = Inr (Some ''ReplicaSet'', Some ''cache-77'')"
proof
  define m where "m = \<lparr>meta_name = ''web-5d9-x2'', meta_namespace = ''prod'',
         owner_references = Some
           [\<lparr>ref_kind = ''Node'', ref_name = ''node-3'', ref_controller = None\<rparr>,
            \<lparr>ref_kind = ''ReplicaSet'', ref_name = ''web-5d9'', ref_controller = Some True\<rparr>]\<rparr>"
  define r where "r = \<lparr>ref_kind = ''ReplicaSet'', ref_name = ''web-5d9'', ref_controller = Some True\<rparr>"
  have a: "metadata mixed_pod = Some m" by (simp add: mixed_pod_def m_def)
  have b: "selected_owner (or_nil (owner_references m)) = Some r"
    by (simp add: m_def r_def or_nil_def selected_owner_def)
  have c: "ref_kind r = ''ReplicaSet''" by (simp add: r_def)
  from resolve_replica_set_chain [of small_cluster mixed_pod] a b c
  have "resolve_controller_for_pod small_cluster mixed_pod =
      Inr (case read_namespaced_replica_set small_cluster (ref_name r) (meta_namespace m) of
             Inl _ \<Rightarrow> (Some ''ReplicaSet'', Some (ref_name r))
           | Inr rs \<Rightarrow>
               (case controlling_deployment rs of
                  Some d \<Rightarrow> (Some ''Deployment'', Some d)
                | None \<Rightarrow> (Some ''ReplicaSet'', Some (ref_name r))))"
    by blast
  then show "resolve_controller_for_pod small_cluster mixed_pod = Inr (Some ''Deployment'', Some ''web'')"
    by (simp add: small_cluster_def m_def r_def web_rs_def controlling_deployment_def or_nil_def)
next
  define m where "m = \<lparr>meta_name = ''cache-1'', meta_namespace = ''dev'',
        owner_references =
          Some [\<lparr>ref_kind = ''ReplicaSet'', ref_name = ''cache-77'', ref_controller = None\<rparr>]\<rparr>"
  define r where "r = \<lparr>ref_kind = ''ReplicaSet'', ref_name = ''cache-77'', ref_controller = None\<rparr>"
  have a: "metadata pull_pod = Some m" by (simp add: pull_pod_def m_def)
  have b: "selected_owner (or_nil (owner_references m)) = Some r"
    by (simp add: m_def r_def or_nil_def selected_owner_def)
  have c: "ref_kind r = ''ReplicaSet''" by (simp add: r_def)
  from resolve_replica_set_chain [of small_cluster pull_pod] a b c
  have "resolve_controller_for_pod small_cluster pull_pod =
      Inr (case read_namespaced_replica_set small_cluster (ref_name r) (meta_namespace m) of
             Inl _ \<Rightarrow> (Some ''ReplicaSet'', Some (ref_name r))
           | Inr rs \<Rightarrow>
               (case controlling_deployment rs of
                  Some d \<Rightarrow> (Some ''Deployment'', Some d)
                | None \<Rightarrow> (Some ''ReplicaSet'', Some (ref_name r))))"
    by blast
  then show "resolve_controller_for_pod small_cluster pull_pod = Inr (Some ''ReplicaSet'', Some ''cache-77'')"
    by (simp add: small_cluster_def m_def r_def)
qed

section \<open>Failure scan: results\<close>














text \<open>The scan returns whenever every listed pod has a status and metadata.\<close>

lemma scan_pods_total:
  "\<forall>p \<in> set pods. status p \<noteq> None \<and> metadata p \<noteq> None \<Longrightarrow>
     \<exists>recs. scan_pods api pods acc = Inr recs"
proof (induction pods arbitrary: acc)
  case Nil
  then show ?case by simp
next
  case (Cons p ps)
  then obtain st m where st: "status p = Some st" and m: "metadata p = Some m" by auto
  obtain r where res: "resolve_controller_for_pod api p = Inr r"
    using resolve_total by blast
  have "\<exists>t. scan_pod api p = Inr t"
    using st m res by (cases r) (simp add: scan_pod_def Let_def)
  then obtain t where "scan_pod api p = Inr t" ..
  with Cons show ?case by (cases t) simp_all
qed

text \<open>
  A stale container state does not hide a pod: \<open>web_pod\<close> has a container terminated
  with reason \<open>PodCompleted\<close>, and is reported under its Ready condition's reason.
\<close>

lemma stale_container_state_kept:
  "scan_pod small_cluster web_pod =
     Inr (Some (''prod'', ''web-5d9-x1'', ''ContainersNotReady'', Some ''Deployment'', Some ''web''))
   \<and> ''PodCompleted'' \<in> set (stated_reasons (the (status web_pod)))"
  by (simp add: scan_pod_def web_pod_def is_ready_def ready_condition_of_def
      or_nil_def derive_reason_def py_or_def truthy_def container_reasons_def reasons_of_status_def
      resolve_controller_for_pod_def resolve_body_def try_except_def select_controller_ref_def
      replica_set_owner_def small_cluster_def web_meta_def web_ref_def web_rs_def Let_def
      stated_reasons_def opt_list_def)

text \<open>
  Where the listing does carry two Ready conditions, the code reads the first one only.
\<close>

lemma first_ready_condition_decides:
  "is_ready \<lparr>conditions = Some
       [\<lparr>cond_type = ''Ready'', cond_status = Some ''False'', cond_reason = None,
         cond_message = None\<rparr>,
        \<lparr>cond_type = ''Ready'', cond_status = Some ''True'', cond_reason = None,
         cond_message = None\<rparr>],
     container_statuses = None, phase = None\<rparr> = False"
  by (simp add: is_ready_def ready_condition_of_def or_nil_def)


section \<open>The switch signal\<close>

lemma read_loop_ctrl_n:
  "\<forall>c \<in> set typed. c \<noteq> CHR 0x0E \<and> c \<noteq> CR \<and> c \<noteq> LF \<Longrightarrow>
     read_loop buffer (typed @ CHR 0x0E # rest) = Some (([], True), rest)"
  by (induction typed arbitrary: buffer) auto

text \<open>
  C3. With a non-empty working set and the cursor at any position, when the switch
  signal (byte 0x0E) arrives before the line is committed, whatever was typed before it
  (printable text, backspaces, other bytes) is discarded: the input routine returns the
  empty text with the switch flag, and the round continues with the cursor at
  (\<open>current_idx\<close> + 1) mod the size of the working set, the target it points to, and a
  context that is the fresh description of that target alone. Nothing is run and the
  oracle is not asked.
\<close>

theorem switch_signal_advances:
  assumes "all_pods \<noteq> []"
    and "\<forall>c \<in> set typed. c \<noteq> CHR 0x0E \<and> c \<noteq> CR \<and> c \<noteq> LF"
    and "stdin w = typed @ CHR 0x0E # rest"
    and "all_pods ! ((current_idx s + 1) mod length all_pods) = (namespace, pod_name, why, kind, cname)"
  shows "read_user_input_or_ctrl_n (stdin w) = Some (([], True), rest)
     \<and> chat_round h all_pods s w =
         Some (Inr (Continue,
                 \<lparr>ns = namespace, pod = pod_name, reason = why,
                  context_str = initial_context pod_name namespace why,
                  current_idx = (current_idx s + 1) mod length all_pods\<rparr>),
               w\<lparr>stdin := rest\<rparr>)"
proof -
  have r: "read_user_input_or_ctrl_n (stdin w) = Some (([], True), rest)"
    using assms(2,3) by (simp add: read_user_input_or_ctrl_n_def read_loop_ctrl_n)
  have "switch_to all_pods ((current_idx s + 1) mod length all_pods) s =
      \<lparr>ns = namespace, pod = pod_name, reason = why,
       context_str = initial_context pod_name namespace why,
       current_idx = (current_idx s + 1) mod length all_pods\<rparr>"
    using assms(4) by (cases s) (simp add: switch_to_def)
  with r assms(1) show ?thesis by (simp add: chat_round_def)
qed

lemma web_session_eq: "web_session = \<lparr>ns = ''prod'', pod = ''web-5d9-x1'', reason = ''ContainersNotReady'',
   context_str = ''Pod web-5d9-x1 in namespace prod is failing: ContainersNotReady'', current_idx = 0\<rparr>"
  by (simp add: web_session_def start_session_def small_pods_def initial_context_def)

theorem switch_signal_advances_witness:
  "chat_round small_host small_pods web_session (typing (''why is th'' @ [CHR 0x7F, CHR 0x0E] @ ''exit'')) =
     Some (Inr (Continue,
             \<lparr>ns = ''dev'', pod = ''cache-1'', reason = ''ErrImagePull, ImagePullBackOff'',
              context_str = ''Pod cache-1 in namespace dev is failing: ErrImagePull, ImagePullBackOff'',
              current_idx = 1\<rparr>),
           typing ''exit'')"
proof -
  have a: "small_pods \<noteq> []" by (simp add: small_pods_def)
  have b: "\<forall>c \<in> set (''why is th'' @ [CHR 0x7F]). c \<noteq> CHR 0x0E \<and> c \<noteq> CR \<and> c \<noteq> LF" by simp
  have c: "stdin (typing (''why is th'' @ [CHR 0x7F, CHR 0x0E] @ ''exit'')) = (''why is th'' @ [CHR 0x7F]) @ CHR 0x0E # ''exit''"
    by (simp add: typing_def)
  have d: "small_pods ! ((current_idx web_session + 1) mod length small_pods) =
      (''dev'', ''cache-1'', ''ErrImagePull, ImagePullBackOff'', Some ''ReplicaSet'', Some ''cache-77'')"
    by (simp add: web_session_eq small_pods_def)
  from switch_signal_advances [OF a b c d, of small_host]
  show ?thesis by (simp add: web_session_eq small_pods_def initial_context_def typing_def)
qed

section \<open>Command execution: results\<close>

lemma those_map_Some [simp]: "those (map Some xs) = Some xs"
  by (induction xs) auto

lemma run_cmd_world:
  "snd (run_cmd h cmd w) = w\<lparr>commands := commands w @ [cmd]\<rparr>"
  by (simp add: run_cmd_def Let_def split: option.splits proc_outcome.splits)

lemma sublist_middle: "sublist ys (xs @ ys @ zs)"
  by (auto simp: sublist_def)

text \<open>
  When \<open>check_output\<close> returns the output or raises \<open>CalledProcessError\<close>, \<open>run_cmd\<close>
  returns a text and does not raise: the output itself; or the error prefix, the command
  joined by spaces, a colon, a line feed and the captured output, so that the text
  starts with the prefix, contains the command and ends with the output.
\<close>

theorem run_cmd_captures_exit_status:
  assumes "\<forall>e. check_output h argv \<noteq> NotRun e"
  shows "\<exists>text. fst (run_cmd h (map Some argv) w) = Inr text
      \<and> (\<forall>out. check_output h argv = Succeeded out \<longrightarrow> text = out)
      \<and> (\<forall>out. check_output h argv = CalledProcessError out \<longrightarrow>
            text = error_prefix @ join '' '' argv @ '':'' @ [LF] @ out
            \<and> prefix error_prefix text \<and> sublist (join '' '' argv) text \<and> suffix out text)"
proof (cases "check_output h argv")
  case (Succeeded out)
  then show ?thesis by (simp add: run_cmd_def)
next
  case (CalledProcessError out)
  have "sublist (join '' '' argv) (error_prefix @ join '' '' argv @ ('':'' @ [LF] @ out))"
    by (rule sublist_middle)
  moreover have "suffix out (error_prefix @ join '' '' argv @ '':'' @ [LF] @ out)"
    by (simp add: suffix_def)
  ultimately show ?thesis using CalledProcessError by (simp add: run_cmd_def)
next
  case (NotRun e)
  with assms show ?thesis by simp
qed

theorem run_cmd_captures_exit_status_witness:
  "fst (run_cmd small_host (map Some [''kubectl'', ''describe'', ''pod'', ''web-5d9-x1'', ''-n'', ''prod'']) (typing [])) =
     Inr ([CHR 0xE2, CHR 0x9D, CHR 0x8C] @ '' Error executing kubectl describe pod web-5d9-x1 -n prod:''
          @ [LF] @ ''Error from server (NotFound)'' @ [LF])"
proof -
  let ?argv = "[''kubectl'', ''describe'', ''pod'', ''web-5d9-x1'', ''-n'', ''prod'']"
  have c: "check_output small_host ?argv = CalledProcessError (''Error from server (NotFound)'' @ [LF])"
    by (simp add: small_host_def)
  then have a: "\<forall>e. check_output small_host ?argv \<noteq> NotRun e" by simp
  from run_cmd_captures_exit_status [OF a, of "typing []"] c
  show ?thesis by (auto simp: error_prefix_def)
qed

text \<open>
  C8. Command execution is to return every failure as a text and never to raise. Only
  \<open>CalledProcessError\<close> is caught, though: on a host where \<open>kubectl\<close> cannot be started,
  \<open>run_cmd\<close> called with a well-formed command raises \<open>OSError\<close> and returns no text.
\<close>

theorem run_cmd_raises_when_not_started:
  "run_cmd bare_host [Some ''kubectl'', Some ''get'', Some ''events'', Some ''-n'', Some ''prod''] (typing [])
     = (Inl OSError, \<lparr>stdin = [], commands = [[Some ''kubectl'', Some ''get'', Some ''events'', Some ''-n'', Some ''prod'']], prompts = []\<rparr>)"
  by (simp add: run_cmd_def bare_host_def small_host_def typing_def)

section \<open>Container selection for logs\<close>

lemma remdups_later_duplicate: "x \<in> set bs \<Longrightarrow> remdups (as @ x # bs) = remdups (as @ bs)"
  by (induction as) auto

lemma fromkeys_append: "fromkeys keys xs = first_occurrences (keys @ xs)" if "distinct keys"
  using that
proof (induction xs arbitrary: keys)
  case Nil
  then show ?case by (simp add: first_occurrences_def distinct_remdups_id)
next
  case (Cons x xs)
  show ?case
  proof (cases "x \<in> set keys")
    case True
    then have "remdups (rev xs @ x # rev keys) = remdups (rev xs @ rev keys)"
      by (simp add: remdups_later_duplicate)
    with True Cons show ?thesis by (simp add: first_occurrences_def)
  next
    case False
    with Cons.prems have "distinct (keys @ [x])" by simp
    from Cons.IH [OF this] False show ?thesis by simp
  qed
qed

lemma fromkeys_first_occurrences: "fromkeys [] xs = first_occurrences xs"
  by (simp add: fromkeys_append)

lemma first_occurrences_set: "set (first_occurrences xs) = set xs"
  by (simp add: first_occurrences_def)

lemma first_occurrences_distinct: "distinct (first_occurrences xs)"
  by (simp add: first_occurrences_def)

lemma container_names_nonempty: "c \<in> set (container_names p) \<Longrightarrow> c \<noteq> []"
  by (auto simp: container_names_def names_of_def truthy_def split: option.splits)

lemma py_input_shorter: "py_input inp = Inr (line, rest) \<Longrightarrow> length rest < length inp"
proof -
  assume a: "py_input inp = Inr (line, rest)"
  then have ne: "inp \<noteq> []" and r: "rest = drop 1 (dropWhile (\<lambda>c. c \<noteq> LF) inp)"
    by (auto simp: py_input_def split: if_splits)
  have "length (dropWhile (\<lambda>c. c \<noteq> LF) inp) \<le> length inp" by (rule length_dropWhile_le)
  with ne r show ?thesis by (cases inp) auto
qed

lemma select_container_result:
  "select_container h names inp = (r, rest) \<Longrightarrow>
     (case r of
        Inl e \<Rightarrow> e = EOFError \<and> rest = []
      | Inr c \<Rightarrow> length rest < length inp
          \<and> (\<exists>line n. py_int h line = Some n \<and> 1 \<le> n \<and> n \<le> int (length names)
                \<and> c = names ! nat (n - 1)))"
proof (induction h names inp arbitrary: r rest rule: select_container.induct)
  case (1 h unique_names inp)
  show ?case
  proof (cases "py_input inp")
    case (Inl e)
    with "1.prems" have "r = Inl e" "rest = inp"
      by (subst (asm) select_container.simps, simp)+
    with Inl show ?thesis
      by (auto simp: py_input_def split: if_splits)
  next
    case (Inr lr)
    obtain line rest' where lr: "lr = (line, rest')" by (cases lr)
    note sh = py_input_shorter [OF Inr [unfolded lr]]
    show ?thesis
    proof (cases "py_int h line")
      case None
      with "1.prems" Inr lr have "select_container h unique_names rest' = (r, rest)"
        by (subst (asm) select_container.simps) simp
      from "1.IH"(1) [OF Inr [unfolded lr] refl None this] sh show ?thesis
        by (auto split: sum.splits)
    next
      case (Some n)
      show ?thesis
      proof (cases "0 \<le> n - 1 \<and> n - 1 < int (length unique_names)")
        case True
        with "1.prems" Inr lr Some have "r = Inr (unique_names ! nat (n - 1))" "rest = rest'"
          by (subst (asm) select_container.simps, simp)+
        moreover from Some True
        have "py_int h line = Some n \<and> 1 \<le> n \<and> n \<le> int (length unique_names)
            \<and> unique_names ! nat (n - 1) = unique_names ! nat (n - 1)"
          by auto
        then have "\<exists>line m. py_int h line = Some m \<and> 1 \<le> m \<and> m \<le> int (length unique_names)
            \<and> unique_names ! nat (n - 1) = unique_names ! nat (m - 1)"
          by (intro exI)
        ultimately show ?thesis using sh by simp
      next
        case False
        with "1.prems" Inr lr Some have "select_container h unique_names rest' = (r, rest)"
          by (subst (asm) select_container.simps) (auto simp: Let_def split: if_splits)
        from "1.IH"(2) [OF Inr [unfolded lr] refl Some refl False this] sh show ?thesis
          by (auto split: sum.splits)
      qed
    qed
  qed
qed

lemma enumerate_containers_cases:
  "enumerate_containers h tp tn inp = (found, inp') \<Longrightarrow>
     (case read_namespaced_pod (k8s h) tp tn of
        Inl e \<Rightarrow> found = Inl e \<and> inp' = inp
      | Inr pod_obj \<Rightarrow>
          (let names = first_occurrences (container_names pod_obj)
           in if length names > 1 then
                (case found of
                   Inr sel \<Rightarrow> length inp' < length inp
                     \<and> (\<exists>line n. py_int h line = Some n \<and> 1 \<le> n \<and> n \<le> int (length names)
                            \<and> sel = Some (names ! nat (n - 1)))
                 | Inl e \<Rightarrow> e = EOFError \<and> inp' = [])
              else if length names = 1 then found = Inr (Some (names ! 0)) \<and> inp' = inp
              else found = Inr None \<and> inp' = inp))"
proof (cases "read_namespaced_pod (k8s h) tp tn")
  case (Inl e)
  assume "enumerate_containers h tp tn inp = (found, inp')"
  with Inl show ?thesis by (simp add: enumerate_containers_def)
next
  case (Inr pod_obj)
  assume a: "enumerate_containers h tp tn inp = (found, inp')"
  let ?names = "first_occurrences (container_names pod_obj)"
  show ?thesis
  proof (cases "length ?names > 1")
    case True
    obtain r rest where sc: "select_container h ?names inp = (r, rest)"
      by (cases "select_container h ?names inp")
    note res = select_container_result [OF sc]
    from a Inr True sc have "inp' = rest" "found = (case r of Inl e \<Rightarrow> Inl e | Inr c \<Rightarrow> Inr (Some c))"
      by (auto simp: enumerate_containers_def fromkeys_first_occurrences Let_def split: sum.splits)
    with res Inr True show ?thesis by (cases r) (auto simp: Let_def)
  next
    case False
    with a Inr show ?thesis
      by (auto simp: enumerate_containers_def fromkeys_first_occurrences Let_def)
  qed
qed

lemma logs_cmd_shape:
  "logs_cmd tp tn sel =
     [Some ''kubectl'', Some ''logs'', Some tp, Some ''-n'', Some tn, Some ''--tail=100'']
     @ (if truthy sel then [Some ''-c'', sel] else [])"
  by (simp add: logs_cmd_def)

lemma dispatch_logs:
  "req_type result = LOGS \<Longrightarrow>
     dispatch h result s w =
       run_cmd h
         (logs_cmd (or_str (req_name result) (pod s)) (or_str (req_namespace result) (ns s))
            (case fst (enumerate_containers h (or_str (req_name result) (pod s))
                         (or_str (req_namespace result) (ns s)) (stdin w)) of
               Inl _ \<Rightarrow> None | Inr c \<Rightarrow> c))
         (w\<lparr>stdin := snd (enumerate_containers h (or_str (req_name result) (pod s))
                           (or_str (req_namespace result) (ns s)) (stdin w))\<rparr>)"
  by (simp add: dispatch_def Let_def)

lemma first_occurrences_nonempty:
  "i < length (first_occurrences (container_names p)) \<Longrightarrow>
     first_occurrences (container_names p) ! i \<noteq> []"
proof -
  assume "i < length (first_occurrences (container_names p))"
  then have "first_occurrences (container_names p) ! i \<in> set (first_occurrences (container_names p))"
    by (rule nth_mem)
  then show ?thesis by (simp add: first_occurrences_set container_names_nonempty)
qed

lemma container_names_listed: "container_names pod_obj = listed_names pod_obj"
proof -
  have "map (\<lambda>c. the (container_name c)) (filter (\<lambda>c. truthy (container_name c)) xs) =
      [n. c \<leftarrow> xs, n \<leftarrow> opt_list (container_name c), n \<noteq> []]" for xs
    by (induction xs) (auto simp: opt_list_def truthy_def split: option.splits)
  then have "names_of cs = named cs" for cs
    by (simp only: names_of_def named_def)
  then show ?thesis
    by (simp add: container_names_def listed_names_def split: option.splits)
qed

lemma split_lines_step:
  "inp \<noteq> [] \<or> cur \<noteq> [] \<Longrightarrow>
     split_lines cur inp =
       (cur @ takeWhile (\<lambda>c. c \<noteq> LF) inp)
       # split_lines [] (drop 1 (dropWhile (\<lambda>c. c \<noteq> LF) inp))"
  by (induction inp arbitrary: cur) auto

lemma input_lines_step:
  "py_input inp = Inr (line, rest) \<Longrightarrow> input_lines inp = line # input_lines rest"
  using split_lines_step [of inp "[]"]
  by (auto simp: py_input_def input_lines_def split: if_splits)

lemma py_input_rest:
  "py_input inp = Inr (line, rest) \<Longrightarrow> drop_lines (Suc k) inp = drop_lines k rest"
  by (auto simp: py_input_def split: if_splits)

lemma selection_skip:
  assumes "py_input inp = Inr (line, rest)" and "\<not> answers h names line"
  shows "selection h names inp = selection h names rest"
  using assms
  by (simp add: selection_def input_lines_step py_input_rest Let_def del: drop_lines.simps)

lemma selection_take:
  assumes "py_input inp = Inr (line, rest)" and "py_int h line = Some n"
    and "1 \<le> n" and "n \<le> int (length names)"
  shows "selection h names inp = (Some (names ! nat (n - 1)), rest)"
  using assms
  by (simp add: selection_def input_lines_step answers_def Let_def py_input_rest
      del: drop_lines.simps(2))

lemma selection_end: "selection h names [] = (None, [])"
  by (simp add: selection_def input_lines_def)

text \<open>The selection loop of the code makes the specification's choice.\<close>

lemma select_container_selection:
  "select_container h names inp =
     (case selection h names inp of
        (Some c, rest) \<Rightarrow> (Inr c, rest)
      | (None, rest) \<Rightarrow> (Inl EOFError, rest))"
proof (induction h names inp rule: select_container.induct)
  case (1 h unique_names inp)
  show ?case
  proof (cases "py_input inp")
    case (Inl e)
    then have "inp = []" "e = EOFError" by (auto simp: py_input_def split: if_splits)
    with Inl show ?thesis by (subst select_container.simps) (simp add: selection_end)
  next
    case (Inr lr)
    obtain line rest where lr: "lr = (line, rest)" by (cases lr)
    note pi = Inr [unfolded lr]
    show ?thesis
    proof (cases "py_int h line")
      case None
      then have "\<not> answers h unique_names line" by (simp add: answers_def)
      from selection_skip [OF pi this] "1.IH"(1) [OF pi refl None] pi None
      show ?thesis by (subst select_container.simps) simp
    next
      case (Some n)
      show ?thesis
      proof (cases "0 \<le> n - 1 \<and> n - 1 < int (length unique_names)")
        case True
        then have "1 \<le> n" "n \<le> int (length unique_names)" by auto
        from selection_take [OF pi Some this] pi Some True
        show ?thesis by (subst select_container.simps) (simp add: Let_def)
      next
        case False
        with Some have "\<not> answers h unique_names line" by (auto simp: answers_def)
        from selection_skip [OF pi this] "1.IH"(2) [OF pi refl Some refl False] pi Some False
        show ?thesis by (subst select_container.simps) (auto simp: Let_def)
      qed
    qed
  qed
qed

lemma selection_chosen:
  assumes "selection h names inp = (Some c, rest)"
  shows "c \<in> set names"
proof -
  let ?ls = "input_lines inp"
  let ?rejected = "takeWhile (\<lambda>l. \<not> answers h names l) ?ls"
  from assms have less: "length ?rejected < length ?ls"
    and c: "c = names ! nat (the (py_int h (?ls ! length ?rejected)) - 1)"
    by (auto simp: selection_def Let_def split: if_splits)
  from less have "answers h names (?ls ! length ?rejected)"
    using nth_length_takeWhile [of "\<lambda>l. \<not> answers h names l" ?ls] by simp
  then obtain n where "py_int h (?ls ! length ?rejected) = Some n" "1 \<le> n"
    "n \<le> int (length names)"
    by (auto simp: answers_def split: option.splits)
  with c have "c = names ! nat (n - 1)" "nat (n - 1) < length names" by auto
  then show ?thesis by simp
qed

lemma listed_names_nonempty: "c \<in> set (listed_names p) \<Longrightarrow> c \<noteq> []"
  by (auto simp: listed_names_def named_def split: option.splits)

lemma logs_cmd_query:
  "(\<And>c. chosen = Some c \<Longrightarrow> c \<noteq> []) \<Longrightarrow> logs_cmd tp tn chosen = logs_query tp tn chosen"
  by (cases chosen) (simp_all add: logs_cmd_def logs_query_def truthy_def)

text \<open>
  C7, as amended. A LOGS dispatch runs one log query on the target pod. When the pod
  cannot be read the query has no container qualifier and no input is read. Otherwise
  the names are the init-container names followed by the regular-container names,
  de-duplicated by first occurrence: with exactly one name, the query is qualified with
  it and no input is read; with none, the query has no qualifier; with more than one,
  lines are read from the input until one is a number in range, and the query is
  qualified with the name at that place, unless the input ends before such a line, in
  which case the query runs with no qualifier.
\<close>

theorem logs_container_choice:
  assumes "req_type result = LOGS"
    and "tp = or_str (req_name result) (pod s)"
    and "tn = or_str (req_namespace result) (ns s)"
  shows "dispatch h result s w =
     (case read_namespaced_pod (k8s h) tp tn of
        Inl _ \<Rightarrow> run_cmd h (logs_query tp tn None) w
      | Inr pod_obj \<Rightarrow>
          (let names = first_occurrences (listed_names pod_obj)
           in if length names > 1 then
                (case selection h names (stdin w) of
                   (chosen, rest) \<Rightarrow> run_cmd h (logs_query tp tn chosen) (w\<lparr>stdin := rest\<rparr>))
              else if length names = 1 then run_cmd h (logs_query tp tn (Some (names ! 0))) w
              else run_cmd h (logs_query tp tn None) w))"
proof (cases "read_namespaced_pod (k8s h) tp tn")
  case (Inl e)
  with assms show ?thesis
    by (simp add: dispatch_logs enumerate_containers_def logs_cmd_def logs_query_def truthy_def)
next
  case (Inr pod_obj)
  let ?names = "first_occurrences (listed_names pod_obj)"
  have names: "fromkeys [] (container_names pod_obj) = ?names"
    by (simp add: fromkeys_first_occurrences container_names_listed)
  have ne: "c \<noteq> []" if "c \<in> set ?names" for c
    using that by (simp add: first_occurrences_set listed_names_nonempty)
  show ?thesis
  proof (cases "length ?names > 1")
    case True
    obtain chosen rest where sel: "selection h ?names (stdin w) = (chosen, rest)"
      by (cases "selection h ?names (stdin w)")
    have q: "logs_cmd tp tn chosen = logs_query tp tn chosen"
      using selection_chosen [of h ?names "stdin w" _ rest] sel ne
      by (intro logs_cmd_query) auto
    have "enumerate_containers h tp tn (stdin w) =
        (case chosen of Some c \<Rightarrow> (Inr (Some c), rest) | None \<Rightarrow> (Inl EOFError, rest))"
      using Inr True sel
      by (simp add: enumerate_containers_def names select_container_selection split: option.splits)
    with assms Inr True sel q show ?thesis
      by (cases chosen) (simp_all add: dispatch_logs)
  next
    case False
    show ?thesis
    proof (cases "length ?names = 1")
      case True
      then have "?names ! 0 \<in> set ?names" by simp
      then have "logs_cmd tp tn (Some (?names ! 0)) = logs_query tp tn (Some (?names ! 0))"
        using ne by (intro logs_cmd_query) auto
      with assms Inr True show ?thesis
        by (simp add: dispatch_logs enumerate_containers_def names)
    next
      case neither: False
      with assms Inr False show ?thesis
        by (simp add: dispatch_logs enumerate_containers_def names logs_cmd_def logs_query_def
            truthy_def)
    qed
  qed
qed

text \<open>
  \<open>web_pod\<close> lists \<open>init\<close>, \<open>web\<close>, \<open>init\<close>, \<open>proxy\<close>. The answer 9 is out of range
  and asked again; the answer 2 selects \<open>web\<close>.
\<close>

theorem logs_container_choice_witness:
  "dispatch small_host logs_request web_session (typing (''9'' @ [LF] @ ''2'' @ [LF])) =
       (Inr (''panic: missing config'' @ [LF]),
        \<lparr>stdin = [],
         commands = [[Some ''kubectl'', Some ''logs'', Some ''web-5d9-x1'', Some ''-n'', Some ''prod'',
                      Some ''--tail=100'', Some ''-c'', Some ''web'']],
         prompts = []\<rparr>)
   \<and> first_occurrences (listed_names web_pod) = [''init'', ''web'', ''proxy'']"
proof -
  let ?w = "typing (''9'' @ [LF] @ ''2'' @ [LF])"
  have a: "req_type logs_request = LOGS" by (simp add: logs_request_def)
  have b: "''web-5d9-x1'' = or_str (req_name logs_request) (pod web_session)"
    by (simp add: logs_request_def web_session_eq or_str_def)
  have c: "''prod'' = or_str (req_namespace logs_request) (ns web_session)"
    by (simp add: logs_request_def web_session_eq or_str_def)
  have n: "first_occurrences (listed_names web_pod) = [''init'', ''web'', ''proxy'']"
    by (simp add: first_occurrences_def listed_names_def named_def web_pod_def or_nil_def
        opt_list_def)
  have r: "read_namespaced_pod (k8s small_host) ''web-5d9-x1'' ''prod'' = Inr web_pod"
    by (simp add: small_host_def small_cluster_def)
  have s: "selection small_host [''init'', ''web'', ''proxy''] (stdin ?w) = (Some ''web'', [])"
    by (simp add: selection_def input_lines_def answers_def typing_def small_host_def
        decimal_int_def py_isdigit_def Let_def)
  note t = logs_container_choice [OF a b c, of small_host ?w]
  have "dispatch small_host logs_request web_session ?w =
      (case selection small_host [''init'', ''web'', ''proxy''] (stdin ?w) of
         (chosen, rest) \<Rightarrow>
           run_cmd small_host (logs_query ''web-5d9-x1'' ''prod'' chosen) (?w\<lparr>stdin := rest\<rparr>))"
    by (simp only: t r sum.case Let_def n) simp
  then have "dispatch small_host logs_request web_session ?w =
      run_cmd small_host (logs_query ''web-5d9-x1'' ''prod'' (Some ''web'')) (?w\<lparr>stdin := []\<rparr>)"
    by (simp only: s prod.case)
  with n show ?thesis
    by (simp add: run_cmd_def logs_query_def small_host_def typing_def)
qed

lemma web_names: "fromkeys [] (container_names web_pod) = [''init'', ''web'', ''proxy'']"
  by (simp add: container_names_def web_pod_def names_of_def or_nil_def truthy_def)

lemma select_9_2:
  "select_container small_host [''init'', ''web'', ''proxy''] (''9'' @ [LF] @ ''2'' @ [LF]) = (Inr ''web'', [])"
  by (simp add: select_container.simps py_input_def small_host_def decimal_int_def py_isdigit_def)

lemma select_7_eof:
  "select_container small_host [''init'', ''web'', ''proxy''] (''7'' @ [LF]) = (Inl EOFError, [])"
  by (simp add: select_container.simps py_input_def small_host_def decimal_int_def py_isdigit_def)

text \<open>
  \<open>web_pod\<close> has three distinct container names. When the input ends after an
  out-of-range answer, the log command is run with no container chosen.
\<close>

theorem logs_without_choice_at_end_of_input:
  "length (fromkeys [] (container_names web_pod)) = 3
   \<and> dispatch small_host logs_request web_session (typing (''7'' @ [LF])) =
       (Inr (''panic: missing config'' @ [LF]),
        \<lparr>stdin = [],
         commands = [[Some ''kubectl'', Some ''logs'', Some ''web-5d9-x1'', Some ''-n'', Some ''prod'',
                      Some ''--tail=100'']],
         prompts = []\<rparr>)"
proof -
  have k: "k8s small_host = small_cluster" by (simp add: small_host_def)
  have e: "enumerate_containers small_host ''web-5d9-x1'' ''prod'' (''7'' @ [LF]) = (Inl EOFError, [])"
    using select_7_eof by (simp add: enumerate_containers_def k small_cluster_def web_names)
  have "dispatch small_host logs_request web_session (typing (''7'' @ [LF])) =
      run_cmd small_host (logs_cmd ''web-5d9-x1'' ''prod'' None) (typing [])"
    using e by (simp add: dispatch_def logs_request_def web_session_eq or_str_def typing_def)
  then show ?thesis
    by (simp add: web_names run_cmd_def logs_cmd_def truthy_def small_host_def typing_def)
qed

text \<open>
  C10. Every LOGS dispatch calls \<open>run_cmd\<close> once, with a \<open>kubectl logs\<close> command whose
  sixth argument is \<open>--tail=100\<close>.
\<close>

theorem logs_tail_100:
  "req_type result = LOGS \<Longrightarrow>
     \<exists>cmd. commands (snd (dispatch h result s w)) = commands w @ [cmd]
       \<and> take 2 cmd = [Some ''kubectl'', Some ''logs'']
       \<and> cmd ! 5 = Some ''--tail=100''"
  by (simp add: dispatch_logs run_cmd_world logs_cmd_def)

theorem logs_tail_100_witness:
  "commands (snd (dispatch small_host logs_request web_session (typing (''2'' @ [LF])))) ! 0 ! 5 = Some ''--tail=100''"
proof -
  have a: "req_type logs_request = LOGS" by (simp add: logs_request_def)
  from logs_tail_100 [OF a, of small_host web_session "typing (''2'' @ [LF])"]
  show ?thesis by (auto simp: typing_def)
qed

section \<open>Dispatch: which fields a command carries\<close>

lemma dispatch_other_target:
  "req_type result \<noteq> LOGS \<Longrightarrow> dispatch h result s w = dispatch h result s' w"
  by (cases "req_type result") (simp_all add: dispatch_def)

text \<open>
  C5. A LOGS dispatch runs its command on the request's name and namespace, with the
  current target's pod and namespace in the place of an omitted (or empty) one. The
  commands of DESCRIBE_POD, DESCRIBE_DEPLOYMENT, GET_CONFIGMAP and GET_EVENTS carry the
  request's own name and namespace fields as they are, and for every type other than
  LOGS the dispatch does not depend on the current target at all.
\<close>

theorem dispatch_substitutes_for_logs_only:
  "(req_type result = LOGS \<longrightarrow>
      (\<exists>cmd. commands (snd (dispatch h result s w)) = commands w @ [cmd]
         \<and> take 6 cmd =
             [Some ''kubectl'', Some ''logs'', Some (or_str (req_name result) (pod s)),
              Some ''-n'', Some (or_str (req_namespace result) (ns s)), Some ''--tail=100'']))
   \<and> (req_type result = DESCRIBE_POD \<longrightarrow>
        commands (snd (dispatch h result s w)) =
          commands w @ [[Some ''kubectl'', Some ''describe'', Some ''pod'', req_name result,
                         Some ''-n'', req_namespace result]])
   \<and> (req_type result = DESCRIBE_DEPLOYMENT \<longrightarrow>
        commands (snd (dispatch h result s w)) =
          commands w @ [[Some ''kubectl'', Some ''describe'', Some ''deployment'', req_name result,
                         Some ''-n'', req_namespace result]])
   \<and> (req_type result = GET_CONFIGMAP \<longrightarrow>
        commands (snd (dispatch h result s w)) =
          commands w @ [[Some ''kubectl'', Some ''get'', Some ''configmap'', req_name result,
                         Some ''-n'', req_namespace result, Some ''-o'', Some ''yaml'']])
   \<and> (req_type result = GET_EVENTS \<longrightarrow>
        commands (snd (dispatch h result s w)) =
          commands w @ [[Some ''kubectl'', Some ''get'', Some ''events'', Some ''-n'',
                         req_namespace result]])
   \<and> (req_type result \<noteq> LOGS \<longrightarrow> dispatch h result s w = dispatch h result s' w)"
proof (intro conjI impI)
  assume "req_type result = LOGS"
  then show "\<exists>cmd. commands (snd (dispatch h result s w)) = commands w @ [cmd]
         \<and> take 6 cmd =
             [Some ''kubectl'', Some ''logs'', Some (or_str (req_name result) (pod s)),
              Some ''-n'', Some (or_str (req_namespace result) (ns s)), Some ''--tail=100'']"
    by (simp add: dispatch_logs run_cmd_world logs_cmd_def)
next
  assume "req_type result \<noteq> LOGS"
  then show "dispatch h result s w = dispatch h result s' w" by (rule dispatch_other_target)
qed (simp_all add: dispatch_def run_cmd_world)

lemma or_str_absent: "or_str None d = d" "or_str (Some []) d = d"
  and or_str_given: "x \<noteq> [] \<Longrightarrow> or_str (Some x) d = x"
  by (simp_all add: or_str_def)

theorem dispatch_substitutes_for_logs_only_witness:
  "commands (snd (dispatch small_host
       \<lparr>req_type = DESCRIBE_POD, req_namespace = Some ''prod'', req_name = Some ''db-0''\<rparr>
       web_session (typing []))) =
     [[Some ''kubectl'', Some ''describe'', Some ''pod'', Some ''db-0'', Some ''-n'', Some ''prod'']]
   \<and> take 6 (commands (snd (dispatch small_host logs_request web_session (typing []))) ! 0) =
       [Some ''kubectl'', Some ''logs'', Some ''web-5d9-x1'', Some ''-n'', Some ''prod'',
        Some ''--tail=100'']"
proof -
  let ?d = "\<lparr>req_type = DESCRIBE_POD, req_namespace = Some ''prod'', req_name = Some ''db-0''\<rparr>"
  note t = dispatch_substitutes_for_logs_only
  have "req_type ?d = DESCRIBE_POD" by simp
  with t [of ?d small_host web_session "typing []"]
  have d: "commands (snd (dispatch small_host ?d web_session (typing []))) =
     commands (typing []) @ [[Some ''kubectl'', Some ''describe'', Some ''pod'', req_name ?d,
                         Some ''-n'', req_namespace ?d]]"
    by blast
  have "req_type logs_request = LOGS" by (simp add: logs_request_def)
  with t [of logs_request small_host web_session "typing []"]
  obtain cmd where "commands (snd (dispatch small_host logs_request web_session (typing []))) =
        commands (typing []) @ [cmd]"
    and "take 6 cmd =
             [Some ''kubectl'', Some ''logs'', Some (or_str (req_name logs_request) (pod web_session)),
              Some ''-n'', Some (or_str (req_namespace logs_request) (ns web_session)), Some ''--tail=100'']"
    by blast
  with d show ?thesis
    by (simp add: typing_def logs_request_def web_session_eq or_str_def)
qed

text \<open>
  A DESCRIBE_POD request without name and namespace, while \<open>web-5d9-x1\<close> in \<open>prod\<close> is
  selected: the command is built with the two missing fields, not with the target's.
\<close>

theorem describe_without_name_is_not_defaulted:
  "dispatch small_host describe_request web_session (typing []) =
     (Inl TypeError,
      \<lparr>stdin = [],
       commands = [[Some ''kubectl'', Some ''describe'', Some ''pod'', None, Some ''-n'', None]],
       prompts = []\<rparr>)
   \<and> pod web_session = ''web-5d9-x1'' \<and> ns web_session = ''prod''"
  by (simp add: dispatch_def describe_request_def run_cmd_def typing_def web_session_eq)

text \<open>
  C4, as amended. Of the action types, only LOGS puts the currently selected target in
  the place of an absent (or empty) field, each field on its own: its query runs on the
  request's name, else the current pod, in the request's namespace, else the current
  namespace. DESCRIBE_POD, DESCRIBE_DEPLOYMENT, GET_CONFIGMAP and GET_EVENTS call
  \<open>run_cmd\<close> with the name and namespace fields of the request as they are, and do not
  depend on the current target.
\<close>

theorem absent_fields_default_for_logs_only:
  "(req_type result = LOGS \<longrightarrow>
      (\<exists>qualifier inp'.
         dispatch h result s w =
           run_cmd h
             ([Some ''kubectl'', Some ''logs'',
               Some (case req_name result of
                       None \<Rightarrow> pod s | Some n \<Rightarrow> if n = [] then pod s else n),
               Some ''-n'',
               Some (case req_namespace result of
                       None \<Rightarrow> ns s | Some n \<Rightarrow> if n = [] then ns s else n),
               Some ''--tail=100''] @ qualifier)
             (w\<lparr>stdin := inp'\<rparr>)))
   \<and> (req_type result = DESCRIBE_POD \<longrightarrow>
        dispatch h result s w =
          run_cmd h [Some ''kubectl'', Some ''describe'', Some ''pod'', req_name result,
                     Some ''-n'', req_namespace result] w)
   \<and> (req_type result = DESCRIBE_DEPLOYMENT \<longrightarrow>
        dispatch h result s w =
          run_cmd h [Some ''kubectl'', Some ''describe'', Some ''deployment'', req_name result,
                     Some ''-n'', req_namespace result] w)
   \<and> (req_type result = GET_CONFIGMAP \<longrightarrow>
        dispatch h result s w =
          run_cmd h [Some ''kubectl'', Some ''get'', Some ''configmap'', req_name result,
                     Some ''-n'', req_namespace result, Some ''-o'', Some ''yaml''] w)
   \<and> (req_type result = GET_EVENTS \<longrightarrow>
        dispatch h result s w =
          run_cmd h [Some ''kubectl'', Some ''get'', Some ''events'', Some ''-n'',
                     req_namespace result] w)
   \<and> (req_type result \<noteq> LOGS \<longrightarrow> dispatch h result s w = dispatch h result s' w)"
proof (intro conjI impI)
  assume l: "req_type result = LOGS"
  let ?tp = "case req_name result of None \<Rightarrow> pod s | Some n \<Rightarrow> if n = [] then pod s else n"
  let ?tn = "case req_namespace result of None \<Rightarrow> ns s | Some n \<Rightarrow> if n = [] then ns s else n"
  have tp: "or_str (req_name result) (pod s) = ?tp"
    by (simp add: or_str_def split: option.splits)
  have tn: "or_str (req_namespace result) (ns s) = ?tn"
    by (simp add: or_str_def split: option.splits)
  define found where "found = enumerate_containers h ?tp ?tn (stdin w)"
  define chosen where "chosen = (case fst found of Inl _ \<Rightarrow> None | Inr c \<Rightarrow> c)"
  have "dispatch h result s w = run_cmd h (logs_cmd ?tp ?tn chosen) (w\<lparr>stdin := snd found\<rparr>)"
    by (simp only: dispatch_logs [OF l] tp tn found_def chosen_def)
  then have "dispatch h result s w =
      run_cmd h
        ([Some ''kubectl'', Some ''logs'', Some ?tp, Some ''-n'', Some ?tn, Some ''--tail=100'']
         @ (if truthy chosen then [Some ''-c'', chosen] else []))
        (w\<lparr>stdin := snd found\<rparr>)"
    by (simp only: logs_cmd_def)
  then show "\<exists>qualifier inp'.
         dispatch h result s w =
           run_cmd h
             ([Some ''kubectl'', Some ''logs'', Some ?tp, Some ''-n'', Some ?tn,
               Some ''--tail=100''] @ qualifier)
             (w\<lparr>stdin := inp'\<rparr>)"
    by (intro exI)
next
  assume "req_type result \<noteq> LOGS"
  then show "dispatch h result s w = dispatch h result s' w" by (rule dispatch_other_target)
qed (simp_all add: dispatch_def)

text \<open>
  A LOGS request that names a pod and no namespace runs in the current namespace; a
  GET_EVENTS request runs in its own namespace, not the current one.
\<close>

theorem absent_fields_default_for_logs_only_witness:
  "commands (snd (dispatch small_host
       \<lparr>req_type = LOGS, req_namespace = None, req_name = Some ''db-0''\<rparr>
       web_session (typing []))) =
     [[Some ''kubectl'', Some ''logs'', Some ''db-0'', Some ''-n'', Some ''prod'',
       Some ''--tail=100'']]
   \<and> commands (snd (dispatch small_host
       \<lparr>req_type = GET_EVENTS, req_namespace = Some ''dev'', req_name = None\<rparr>
       web_session (typing []))) =
     [[Some ''kubectl'', Some ''get'', Some ''events'', Some ''-n'', Some ''dev'']]"
proof
  let ?l = "\<lparr>req_type = LOGS, req_namespace = None, req_name = Some ''db-0''\<rparr>"
  have l: "req_type ?l = LOGS" by simp
  note t = absent_fields_default_for_logs_only [of ?l small_host web_session "typing []",
      THEN conjunct1, rule_format, OF l]
  then obtain qualifier inp' where "dispatch small_host ?l web_session (typing []) =
      run_cmd small_host
        ([Some ''kubectl'', Some ''logs'',
          Some (case req_name ?l of
                  None \<Rightarrow> pod web_session | Some n \<Rightarrow> if n = [] then pod web_session else n),
          Some ''-n'',
          Some (case req_namespace ?l of
                  None \<Rightarrow> ns web_session | Some n \<Rightarrow> if n = [] then ns web_session else n),
          Some ''--tail=100''] @ qualifier) ((typing [])\<lparr>stdin := inp'\<rparr>)"
    by (elim exE)
  then have d: "commands (snd (dispatch small_host ?l web_session (typing []))) =
      [[Some ''kubectl'', Some ''logs'', Some ''db-0'', Some ''-n'', Some ''prod'',
        Some ''--tail=100''] @ qualifier]"
    by (simp add: run_cmd_world typing_def web_session_eq)
  have "commands (snd (dispatch small_host ?l web_session (typing []))) =
      [[Some ''kubectl'', Some ''logs'', Some ''db-0'', Some ''-n'', Some ''prod'',
        Some ''--tail=100'']]"
    by (simp add: dispatch_def or_str_def enumerate_containers_def small_host_def
        small_cluster_def logs_cmd_def truthy_def run_cmd_world typing_def web_session_eq)
  with d show "commands (snd (dispatch small_host ?l web_session (typing []))) =
      [[Some ''kubectl'', Some ''logs'', Some ''db-0'', Some ''-n'', Some ''prod'',
        Some ''--tail=100'']]"
    by simp
next
  let ?e = "\<lparr>req_type = GET_EVENTS, req_namespace = Some ''dev'', req_name = None\<rparr>"
  have e: "req_type ?e = GET_EVENTS" by simp
  note t = absent_fields_default_for_logs_only [of ?e small_host web_session "typing []",
      THEN conjunct2, THEN conjunct2, THEN conjunct2, THEN conjunct2, THEN conjunct1,
      rule_format, OF e]
  then show "commands (snd (dispatch small_host ?e web_session (typing []))) =
     [[Some ''kubectl'', Some ''get'', Some ''events'', Some ''-n'', Some ''dev'']]"
    by (simp add: run_cmd_world typing_def)
qed

section \<open>Bullet formatting: results\<close>

lemmas bullet_eval = format_bullets_def bullet_match_def numbered_match_def py_isspace_def
  py_isdigit_def Let_def

text \<open>
  C9. A numbered marker of two digits at the start of the text is already at the start
  of a line, yet the second pattern matches from its second digit on, and a line feed is
  put inside the marker.
\<close>

theorem format_bullets_splits_two_digit_marker:
  "format_bullets ''10. restart the pod'' = ''1'' @ [LF] @ ''0. restart the pod''"
  by (simp add: bullet_eval)


lemma format_bullets_inline:
  "format_bullets ''a - b - c'' = ''a '' @ [LF] @ ''- b '' @ [LF] @ ''- c''"
  "format_bullets ''1. a 2. b'' = ''1. a '' @ [LF] @ ''2. b''"
  "format_bullets ''a-b'' = ''a-b''"
  "format_bullets ''**Note** x'' = ''**Note*'' @ [LF] @ ''* x''"
  "format_bullets (''x -'' @ [LF] @ ''- y'') = ''x '' @ [LF] @ ''-'' @ [LF] @ ''- y''"
  "format_bullets ''see v1.2. ok'' = ''see v1.'' @ [LF] @ ''2. ok''"
  "format_bullets ([CHR 0xE2, CHR 0x80, CHR 0xA2] @ '' a '' @ [CHR 0xE2, CHR 0x80, CHR 0xA2] @ '' b'')
     = [CHR 0xE2, CHR 0x80, CHR 0xA2] @ '' a '' @ [LF] @ [CHR 0xE2, CHR 0x80, CHR 0xA2] @ '' b''"
  "format_bullets ''a -  b'' = ''a '' @ [LF] @ ''-  b''"
  "format_bullets (''fix: - a'' @ [LF] @ ''12. b'') = ''fix: '' @ [LF] @ ''- a'' @ [LF] @ ''1'' @ [LF] @ ''2. b''"
  "format_bullets (''a'' @ [CHR 0x1C] @ ''- b'') = ''a'' @ [CHR 0x1C, LF] @ ''- b''"
  "format_bullets ''- - x'' = ''- '' @ [LF] @ ''- x''"
  by (simp_all add: bullet_eval)

text \<open>Formatting only ever inserts line feeds.\<close>

lemma re_sub_break_inserts_line_feeds:
  "filter (\<lambda>c. c \<noteq> LF) (re_sub_break m prev s) = filter (\<lambda>c. c \<noteq> LF) s"
proof (induction m prev s rule: re_sub_break.induct)
  case (1 m prev)
  then show ?case by simp
next
  case (2 m prev c cs)
  show ?case
  proof (cases "prev \<noteq> None \<and> prev \<noteq> Some LF \<and> 0 < m (c # cs)")
    case True
    define xs where "xs = c # cs"
    define n where "n = m xs"
    define tail where "tail = re_sub_break m (Some (last (take n xs))) (drop n xs)"
    from True have "re_sub_break m prev (c # cs) = LF # take n xs @ tail"
      by (simp add: xs_def n_def tail_def)
    then have "filter (\<lambda>c. c \<noteq> LF) (re_sub_break m prev (c # cs)) =
        filter (\<lambda>c. c \<noteq> LF) (take n xs) @ filter (\<lambda>c. c \<noteq> LF) tail"
      by simp
    also from True "2.IH"(1) have "filter (\<lambda>c. c \<noteq> LF) tail = filter (\<lambda>c. c \<noteq> LF) (drop n xs)"
      by (simp add: xs_def n_def tail_def)
    also have "filter (\<lambda>c. c \<noteq> LF) (take n xs) @ filter (\<lambda>c. c \<noteq> LF) (drop n xs)
        = filter (\<lambda>c. c \<noteq> LF) xs"
      by (simp only: filter_append [symmetric] append_take_drop_id)
    finally show ?thesis by (simp only: xs_def)
  next
    case False
    with "2.IH"(2) show ?thesis by auto
  qed
qed

lemma format_bullets_inserts_line_feeds:
  "filter (\<lambda>c. c \<noteq> LF) (format_bullets text) = filter (\<lambda>c. c \<noteq> LF) text"
  by (simp add: format_bullets_def re_sub_break_inserts_line_feeds)

section \<open>An ordinary turn\<close>




lemma read_crashing:
  "read_user_input_or_ctrl_n (stdin (typing (''why is this crashing'' @ [CR]))) =
     Some ((''why is this crashing'', False), [])"
  by (simp add: typing_def read_user_input_or_ctrl_n_def strip_def py_isspace_def)

lemma strip_crashing: "strip ''why is this crashing'' = ''why is this crashing''"
  by (simp add: strip_def py_isspace_def)

lemma lower_crashing: "lower ''why is this crashing'' = ''why is this crashing''"
  by (simp add: lower_def lower_char_def)



section \<open>Rounds that leave the context alone\<close>

text \<open>
  A STOP request ends the session at once: the round returns, the session and the world
  are as before, so no command is run and no input is read.
\<close>

theorem stop_returns_without_dispatch:
  "result_of ro = ActionRequest a \<Longrightarrow> req_type a = STOP \<Longrightarrow>
     handle_reply h ro s w = (Inr (Return, s), w)"
  by (simp add: handle_reply_def)

theorem stop_returns_without_dispatch_witness:
  "handle_reply small_host
     (reply (ActionRequest \<lparr>req_type = STOP, req_namespace = None, req_name = None\<rparr>))
     web_session (typing ''exit'') = (Inr (Return, web_session), typing ''exit'')"
proof -
  let ?a = "\<lparr>req_type = STOP, req_namespace = None, req_name = None\<rparr>"
  have "result_of (reply (ActionRequest ?a)) = ActionRequest ?a"
    by (simp add: result_of_def reply_def)
  moreover have "req_type ?a = STOP" by simp
  ultimately show ?thesis by (rule stop_returns_without_dispatch)
qed

text \<open>
  When the oracle call raises, the round continues the loop with the session, and so
  the context, exactly as before; only the input line and the prompt were used up.
\<close>

theorem oracle_failure_keeps_the_session:
  assumes "read_user_input_or_ctrl_n (stdin w) = Some ((typed, False), rest)"
    and "user_input = strip typed"
    and "lower user_input \<noteq> ''exit''" and "lower user_input \<noteq> ''quit''"
    and "\<not> prefix ''switch'' user_input"
    and "agent_run h (context_str s @ [LF] @ ''User: '' @ user_input) = Inl e"
  shows "chat_round h all_pods s w =
     Some (Inr (Continue, s),
           w\<lparr>stdin := rest,
             prompts := prompts w @ [context_str s @ [LF] @ ''User: '' @ user_input]\<rparr>)"
  using assms by (simp add: chat_round_def user_prompt_of_def Let_def)

theorem oracle_failure_keeps_the_session_witness:
  "chat_round deaf_host small_pods web_session (typing (''why is this crashing'' @ [CR])) =
     Some (Inr (Continue, web_session),
           \<lparr>stdin = [], commands = [],
            prompts = [''Pod web-5d9-x1 in namespace prod is failing: ContainersNotReady'' @ [LF]
                       @ ''User: why is this crashing'']\<rparr>)"
proof -
  have b: "''why is this crashing'' = strip ''why is this crashing''"
    by (simp add: strip_crashing)
  have c: "lower ''why is this crashing'' \<noteq> ''exit''" "lower ''why is this crashing'' \<noteq> ''quit''"
    by (simp_all add: lower_crashing)
  have d: "\<not> prefix ''switch'' ''why is this crashing''" by simp
  have e: "agent_run deaf_host (context_str web_session @ [LF] @ ''User: '' @ ''why is this crashing'')
      = Inl ApiException"
    by (simp add: deaf_host_def)
  from oracle_failure_keeps_the_session [OF read_crashing b c d e, of small_pods]
  show ?thesis by (simp add: typing_def web_session_eq)
qed

section \<open>Whole sessions\<close>

text \<open>
  The operator asks for logs, picks the second of three containers and leaves: one
  command is run, one prompt is sent, and the loop ends with \<open>break\<close>.
\<close>

lemma session_example:
  "chat_loop small_host small_pods web_session (typing (''show logs'' @ [CR] @ ''2'' @ [LF] @ ''exit'' @ [CR])) =
     Some (Inr Break,
       \<lparr>stdin = [],
        commands = [[Some ''kubectl'', Some ''logs'', Some ''web-5d9-x1'', Some ''-n'', Some ''prod'',
                     Some ''--tail=100'', Some ''-c'', Some ''web'']],
        prompts = [''Pod web-5d9-x1 in namespace prod is failing: ContainersNotReady'' @ [LF]
                   @ ''User: show logs'']\<rparr>)"
  by (simp add: chat_loop.simps chat_round_def read_user_input_or_ctrl_n_def typing_def
      strip_def py_isspace_def lower_def lower_char_def web_session_eq user_prompt_of_def
      small_host_def suffix_to_prefix handle_reply_def result_of_def reply_def dispatch_def
      or_str_def enumerate_containers_def small_cluster_def web_names select_container.simps
      py_input_def decimal_int_def py_isdigit_def logs_cmd_def truthy_def run_cmd_def Let_def)

text \<open>
  The oracle asks for a pod description without naming the pod: \<open>TypeError\<close> leaves
  \<open>chat_loop\<close> before the operator's \<open>exit\<close> is read.
\<close>

lemma describe_without_name_ends_the_session:
  "chat_loop small_host small_pods web_session (typing (''describe'' @ [CR] @ ''exit'' @ [CR])) =
     Some (Inl TypeError,
       \<lparr>stdin = ''exit'' @ [CR],
        commands = [[Some ''kubectl'', Some ''describe'', Some ''pod'', None, Some ''-n'', None]],
        prompts = [''Pod web-5d9-x1 in namespace prod is failing: ContainersNotReady'' @ [LF]
                   @ ''User: describe'']\<rparr>)"
  by (simp add: chat_loop.simps chat_round_def read_user_input_or_ctrl_n_def typing_def
      strip_def py_isspace_def lower_def lower_char_def web_session_eq user_prompt_of_def
      small_host_def suffix_to_prefix handle_reply_def result_of_def reply_def dispatch_def
      run_cmd_def Let_def)

text \<open>At the end of the input the routine that reads a line never returns.\<close>

lemma end_of_input_blocks:
  "chat_loop small_host small_pods web_session (typing ''exi'') = None"
  by (simp add: chat_loop.simps chat_round_def read_user_input_or_ctrl_n_def typing_def)

end
